theory Spec2Isabelle
  imports Complex_Main "HOL-Library.Char_ord" "HOL-Library.List_Lexorder"
begin

section \<open>Values held in a table\<close>

text \<open>
  The module \<^verbatim>\<open>visualization_utils.py\<close> works on pandas tables. A cell of such a table
  is a string, a date (a day number), or a float. A float is a real number or one of
  the three special values of the floating-point standard; \<open>NaN\<close> is also how pandas
  writes a missing value, in any column. A quotient is rounded to the 64-bit format,
  with its overflow and underflow; the sums of a group and the exponential are taken
  exactly, so that any real number can stand for a finite float.
\<close>

datatype float64 = Fin real | PInf | NInf | NaN

datatype cell = Str string | Dt int | Num float64

text \<open>The exceptions the module can meet, and the outcome of a fallible step.\<close>

datatype error = KeyError | TypeError | IndexError | ValueError | UnboundLocalError

definition ebind :: "error + 'a \<Rightarrow> ('a \<Rightarrow> error + 'b) \<Rightarrow> error + 'b" where
  "ebind m f = (case m of Inl e \<Rightarrow> Inl e | Inr x \<Rightarrow> f x)"

fun seq_err :: "(error + 'a) list \<Rightarrow> error + 'a list" where
  "seq_err [] = Inr []"
| "seq_err (Inl e # ms) = Inl e"
| "seq_err (Inr x # ms) = (case seq_err ms of Inl e \<Rightarrow> Inl e | Inr xs \<Rightarrow> Inr (x # xs))"

text \<open>
  A column is named by a string. The arguments that carry a column name can also hold
  Python's \<^verbatim>\<open>None\<close> (the default of \<^verbatim>\<open>group_col\<close>) or the builtin type \<^verbatim>\<open>str\<close>
  (the default of \<^verbatim>\<open>date_col\<close> in \<^verbatim>\<open>get_spend_vs_activity_plot\<close>); neither is the
  name of a column.
\<close>

datatype label = Name string | NoneLabel | StrType

subsection \<open>Floats\<close>

text \<open>
  The quotient of two finite floats is the real quotient rounded to the nearest number of
  the 64-bit format, and to the even one of two nearest. The numbers of the format near
  \<open>x\<close> are the multiples of \<open>ulp x\<close>: 53 significant bits, and the multiples of 2 to the
  power -1074 where the format has no more bits, so that the smallest quotients become
  zero. \<open>round64\<close> gives an infinity when the rounded number is beyond the largest float.
\<close>

definition ulp :: "real \<Rightarrow> real" where
  "ulp x = 2 powr (of_int (max (\<lfloor>log 2 \<bar>x\<bar>\<rfloor> - 52) (- 1074)))"

definition rnd53 :: "real \<Rightarrow> real" where
  "rnd53 x =
     (if x = 0 then 0
      else let m = x / ulp x; f = \<lfloor>m\<rfloor>
           in (if m - of_int f < 1 / 2 \<or> (m - of_int f = 1 / 2 \<and> even f)
               then of_int f else of_int f + 1) * ulp x)"

definition round64 :: "real \<Rightarrow> float64" where
  "round64 x =
     (let y = rnd53 x
      in if 2 ^ 1024 \<le> \<bar>y\<bar> then (if 0 < y then PInf else NInf) else Fin y)"

text \<open>Division, addition and the exponential on floats; the sign of a zero is not kept.\<close>

fun fl_div :: "float64 \<Rightarrow> float64 \<Rightarrow> float64" where
  "fl_div NaN y = NaN"
| "fl_div x NaN = NaN"
| "fl_div (Fin a) (Fin b) =
     (if b \<noteq> 0 then round64 (a / b)
      else if 0 < a then PInf else if a < 0 then NInf else NaN)"
| "fl_div (Fin a) PInf = Fin 0"
| "fl_div (Fin a) NInf = Fin 0"
| "fl_div PInf (Fin b) = (if 0 \<le> b then PInf else NInf)"
| "fl_div NInf (Fin b) = (if 0 \<le> b then NInf else PInf)"
| "fl_div PInf PInf = NaN"
| "fl_div PInf NInf = NaN"
| "fl_div NInf PInf = NaN"
| "fl_div NInf NInf = NaN"

fun fl_add :: "float64 \<Rightarrow> float64 \<Rightarrow> float64" where
  "fl_add NaN y = NaN"
| "fl_add x NaN = NaN"
| "fl_add (Fin a) (Fin b) = Fin (a + b)"
| "fl_add (Fin a) PInf = PInf"
| "fl_add (Fin a) NInf = NInf"
| "fl_add PInf (Fin b) = PInf"
| "fl_add NInf (Fin b) = NInf"
| "fl_add PInf PInf = PInf"
| "fl_add NInf NInf = NInf"
| "fl_add PInf NInf = NaN"
| "fl_add NInf PInf = NaN"

fun fl_exp :: "float64 \<Rightarrow> float64" where
  "fl_exp (Fin a) = Fin (exp a)"
| "fl_exp PInf = PInf"
| "fl_exp NInf = Fin 0"
| "fl_exp NaN = NaN"

fun fl_le :: "float64 \<Rightarrow> float64 \<Rightarrow> bool" where
  "fl_le NaN y = False"
| "fl_le x NaN = False"
| "fl_le NInf y = True"
| "fl_le x PInf = True"
| "fl_le (Fin a) (Fin b) = (a \<le> b)"
| "fl_le (Fin a) NInf = False"
| "fl_le PInf (Fin b) = False"
| "fl_le PInf NInf = False"

subsection \<open>Cells\<close>

text \<open>
  A character is a code point below 256 and a string a list of these, compared by code
  points as Python compares strings. \<^verbatim>\<open>str.lower\<close> on such a string: the capital
  letters among these code points are A to Z, \<open>0xC0\<close> to \<open>0xD6\<close> and \<open>0xD8\<close> to \<open>0xDE\<close>,
  and the small letter of each is \<open>0x20\<close> further.
\<close>

definition is_upper :: "char \<Rightarrow> bool" where
  "is_upper c \<longleftrightarrow>
     (CHR ''A'' \<le> c \<and> c \<le> CHR ''Z'') \<or> (CHR 0xC0 \<le> c \<and> c \<le> CHR 0xD6)
     \<or> (CHR 0xD8 \<le> c \<and> c \<le> CHR 0xDE)"

definition lower_char :: "char \<Rightarrow> char" where
  "lower_char c =
     (if is_upper c
      then (case c of Char b0 b1 b2 b3 b4 b5 b6 b7 \<Rightarrow> Char b0 b1 b2 b3 b4 True b6 b7)
      else c)"

definition lower :: "string \<Rightarrow> string" where
  "lower s = map lower_char s"

text \<open>
  Arithmetic on cells raises \<^verbatim>\<open>TypeError\<close> off the floats, except that the sum of two
  strings is their concatenation.
\<close>

fun cell_div :: "cell \<Rightarrow> cell \<Rightarrow> error + cell" where
  "cell_div (Num a) (Num b) = Inr (Num (fl_div a b))"
| "cell_div x y = Inl TypeError"

fun cell_add :: "cell \<Rightarrow> cell \<Rightarrow> error + cell" where
  "cell_add (Num a) (Num b) = Inr (Num (fl_add a b))"
| "cell_add (Str a) (Str b) = Inr (Str (a @ b))"
| "cell_add x y = Inl TypeError"

fun cell_exp :: "cell \<Rightarrow> error + cell" where
  "cell_exp (Num a) = Inr (Num (fl_exp a))"
| "cell_exp x = Inl TypeError"

text \<open>
  \<^verbatim>\<open>==\<close> between a column and a scalar never raises; a missing value equals nothing.
  \<^verbatim>\<open><=\<close> and \<^verbatim>\<open>>=\<close> give false on a missing value and raise on values of two kinds.
\<close>

definition py_eq :: "cell \<Rightarrow> cell \<Rightarrow> bool" where
  "py_eq x y = (x = y \<and> x \<noteq> Num NaN)"

fun cell_le :: "cell \<Rightarrow> cell \<Rightarrow> error + bool" where
  "cell_le (Num NaN) y = Inr False"
| "cell_le x (Num NaN) = Inr False"
| "cell_le (Num a) (Num b) = Inr (fl_le a b)"
| "cell_le (Dt a) (Dt b) = Inr (a \<le> b)"
| "cell_le (Str a) (Str b) = Inr (a \<le> b)"
| "cell_le x y = Inl TypeError"

text \<open>\<^verbatim>\<open>.str.lower()\<close> on a column of objects: a cell that is no string becomes missing.\<close>

fun str_lower :: "cell \<Rightarrow> cell" where
  "str_lower (Str s) = Str (lower s)"
| "str_lower x = Num NaN"

text \<open>\<^verbatim>\<open>.fillna(0)\<close> and \<^verbatim>\<open>.replace([np.inf, -np.inf], 0)\<close>, cell by cell.\<close>

fun fillna0 :: "cell \<Rightarrow> cell" where
  "fillna0 (Num NaN) = Num (Fin 0)"
| "fillna0 x = x"

fun replace_inf0 :: "cell \<Rightarrow> cell" where
  "replace_inf0 (Num PInf) = Num (Fin 0)"
| "replace_inf0 (Num NInf) = Num (Fin 0)"
| "replace_inf0 x = x"

section \<open>Tables\<close>

text \<open>
  A table has its column names, in order, and its rows; a row gives the cell of every
  column (what it gives off the table's columns is never read).
\<close>

type_synonym row = "string \<Rightarrow> cell"

record frame =
  columns :: "string list"
  rows :: "row list"

definition row_of :: "(string \<times> cell) list \<Rightarrow> row" where
  "row_of al = (\<lambda>c. case map_of al c of Some v \<Rightarrow> v | None \<Rightarrow> Num NaN)"

definition column_values :: "frame \<Rightarrow> string \<Rightarrow> cell list" where
  "column_values t c = map (\<lambda>r. r c) (rows t)"

definition cells_of :: "frame \<Rightarrow> cell list list" where
  "cells_of t = map (\<lambda>r. map r (columns t)) (rows t)"

text \<open>\<^verbatim>\<open>df[col]\<close>: the column, or \<^verbatim>\<open>KeyError\<close>.\<close>

fun df_getitem :: "frame \<Rightarrow> label \<Rightarrow> error + cell list" where
  "df_getitem t (Name c) =
     (if c \<in> set (columns t) then Inr (column_values t c) else Inl KeyError)"
| "df_getitem t NoneLabel = Inl KeyError"
| "df_getitem t StrType = Inl KeyError"

text \<open>\<^verbatim>\<open>df[col] = series\<close>: the column is replaced, or added as the last one.\<close>

definition df_setitem :: "frame \<Rightarrow> string \<Rightarrow> cell list \<Rightarrow> error + frame" where
  "df_setitem t c vs =
     (if length vs \<noteq> length (rows t) then Inl ValueError
      else Inr (t\<lparr>columns := (if c \<in> set (columns t) then columns t else columns t @ [c]),
                 rows := map (\<lambda>(r, v). r(c := v)) (zip (rows t) vs)\<rparr>))"

text \<open>\<^verbatim>\<open>df[mask]\<close>: the rows where the mask is true, in a new table.\<close>

definition df_mask :: "frame \<Rightarrow> bool list \<Rightarrow> frame" where
  "df_mask t m = t\<lparr>rows := map fst (filter snd (zip (rows t) m))\<rparr>"

definition series_eq :: "cell list \<Rightarrow> cell \<Rightarrow> bool list" where
  "series_eq xs y = map (\<lambda>x. py_eq x y) xs"

definition series_ge :: "cell list \<Rightarrow> cell \<Rightarrow> error + bool list" where
  "series_ge xs y = seq_err (map (\<lambda>x. cell_le y x) xs)"

definition series_le :: "cell list \<Rightarrow> cell \<Rightarrow> error + bool list" where
  "series_le xs y = seq_err (map (\<lambda>x. cell_le x y) xs)"

definition mask_and :: "bool list \<Rightarrow> bool list \<Rightarrow> bool list" where
  "mask_and m n = map (\<lambda>(a, b). a \<and> b) (zip m n)"

text \<open>\<^verbatim>\<open>.unique()\<close>: the distinct values, in the order of their first appearance.\<close>

fun unique :: "'a list \<Rightarrow> 'a list" where
  "unique [] = []"
| "unique (x # xs) = x # unique (removeAll x xs)"

text \<open>
  \<^verbatim>\<open>.min()\<close> and \<^verbatim>\<open>.max()\<close> skip missing values and give a missing value on an empty
  column.
\<close>

fun min_from :: "cell \<Rightarrow> cell list \<Rightarrow> error + cell" where
  "min_from m [] = Inr m"
| "min_from m (v # vs) = ebind (cell_le v m) (\<lambda>b. min_from (if b then v else m) vs)"

fun max_from :: "cell \<Rightarrow> cell list \<Rightarrow> error + cell" where
  "max_from m [] = Inr m"
| "max_from m (v # vs) = ebind (cell_le m v) (\<lambda>b. max_from (if b then v else m) vs)"

definition series_min :: "cell list \<Rightarrow> error + cell" where
  "series_min xs =
     (case filter (\<lambda>v. v \<noteq> Num NaN) xs of [] \<Rightarrow> Inr (Num NaN) | v # vs \<Rightarrow> min_from v vs)"

definition series_max :: "cell list \<Rightarrow> error + cell" where
  "series_max xs =
     (case filter (\<lambda>v. v \<noteq> Num NaN) xs of [] \<Rightarrow> Inr (Num NaN) | v # vs \<Rightarrow> max_from v vs)"

section \<open>The derived metric\<close>

text \<open>
  The two statements every spend-versus-activity function runs on its working table:
  \<^verbatim>\<open>temp["cost_per_act"] = temp["Spend"] / temp["Activity"]\<close> and
  \<^verbatim>\<open>temp["cost_per_act"] = temp["cost_per_act"].fillna(0).replace([np.inf, -np.inf], 0)\<close>.
\<close>

definition series_div :: "cell list \<Rightarrow> cell list \<Rightarrow> error + cell list" where
  "series_div xs ys = seq_err (map (\<lambda>(x, y). cell_div x y) (zip xs ys))"

definition cost_per_act :: "frame \<Rightarrow> error + frame" where
  "cost_per_act temp =
     ebind (df_getitem temp (Name ''Spend'')) (\<lambda>spend.
     ebind (df_getitem temp (Name ''Activity'')) (\<lambda>activity.
     ebind (series_div spend activity) (\<lambda>q.
     ebind (df_setitem temp ''cost_per_act'' q) (\<lambda>temp1.
     ebind (df_getitem temp1 (Name ''cost_per_act'')) (\<lambda>c.
     df_setitem temp1 ''cost_per_act'' (map (\<lambda>v. replace_inf0 (fillna0 v)) c))))))"

section \<open>Group and sum\<close>

text \<open>
  \<^verbatim>\<open>df.groupby(keys).sum(numeric_only=False).reset_index()\<close>. The key columns must
  exist. A row with a missing value in a key column belongs to no group. There is one
  output row for each distinct key, the keys in sorted order. The output columns are the
  keys, then the other columns of the table, each summed over the rows of the group:
  missing values are skipped, floats add up, strings concatenate, a column of dates
  raises, and the sum over nothing is zero. The one call that leaves \<^verbatim>\<open>numeric_only\<close> to
  its default, in the two actual-versus-predicted functions, is read the same way.
\<close>

definition fl_sort_le :: "float64 \<Rightarrow> float64 \<Rightarrow> bool" where
  "fl_sort_le x y = (y = NaN \<or> fl_le x y)"

fun cell_sort_le :: "cell \<Rightarrow> cell \<Rightarrow> bool" where
  "cell_sort_le (Num a) (Num b) = fl_sort_le a b"
| "cell_sort_le (Num a) y = True"
| "cell_sort_le (Dt a) (Num b) = False"
| "cell_sort_le (Dt a) (Dt b) = (a \<le> b)"
| "cell_sort_le (Dt a) (Str b) = True"
| "cell_sort_le (Str a) (Str b) = (a \<le> b)"
| "cell_sort_le (Str a) y = False"

fun key_le :: "cell list \<Rightarrow> cell list \<Rightarrow> bool" where
  "key_le [] ys = True"
| "key_le (x # xs) [] = False"
| "key_le (x # xs) (y # ys) = (if x = y then key_le xs ys else cell_sort_le x y)"

fun insert_key :: "cell list \<Rightarrow> cell list list \<Rightarrow> cell list list" where
  "insert_key k [] = [k]"
| "insert_key k (x # xs) = (if key_le k x then k # x # xs else x # insert_key k xs)"

definition sort_keys :: "cell list list \<Rightarrow> cell list list" where
  "sort_keys ks = foldr insert_key ks []"

definition key_of :: "string list \<Rightarrow> row \<Rightarrow> cell list" where
  "key_of ks r = map r ks"

fun is_date :: "cell \<Rightarrow> bool" where
  "is_date (Dt d) = True"
| "is_date x = False"

fun sum_from :: "cell \<Rightarrow> cell list \<Rightarrow> error + cell" where
  "sum_from acc [] = Inr acc"
| "sum_from acc (v # vs) = ebind (cell_add acc v) (\<lambda>a. sum_from a vs)"

definition group_sum :: "cell list \<Rightarrow> error + cell" where
  "group_sum xs =
     (if list_ex is_date xs then Inl TypeError
      else (case filter (\<lambda>v. v \<noteq> Num NaN) xs of
              [] \<Rightarrow> Inr (Num (Fin 0))
            | v # vs \<Rightarrow> sum_from v vs))"

definition group_row :: "string list \<Rightarrow> string list \<Rightarrow> cell list \<Rightarrow> row list \<Rightarrow> error + row" where
  "group_row ks others k grp =
     ebind (seq_err (map (\<lambda>c. group_sum (map (\<lambda>r. r c) grp)) others)) (\<lambda>totals.
     Inr (row_of (zip ks k @ zip others totals)))"

definition groupby_sum :: "frame \<Rightarrow> string list \<Rightarrow> error + frame" where
  "groupby_sum t ks =
     (if \<not> list_all (\<lambda>k. k \<in> set (columns t)) ks then Inl KeyError
      else
        let kept = filter (\<lambda>r. Num NaN \<notin> set (key_of ks r)) (rows t);
            groups = sort_keys (unique (map (key_of ks) kept));
            others = filter (\<lambda>c. c \<notin> set ks) (columns t)
        in ebind (seq_err (map (\<lambda>k. group_row ks others k
                                     (filter (\<lambda>r. key_of ks r = k) kept)) groups)) (\<lambda>rs.
           Inr \<lparr>columns = ks @ others, rows = rs\<rparr>))"

section \<open>The chart emitter\<close>

text \<open>
  Drawing is the charting library's work. A figure is what the module hands to it: the
  kind of chart, the working table and the columns bound to the axes. \<^verbatim>\<open>px.line\<close> and
  \<^verbatim>\<open>px.scatter\<close> raise \<^verbatim>\<open>ValueError\<close> on a column the table does not have; the traces
  built with \<^verbatim>\<open>go.Scatter(x=temp[...], y=temp[...])\<close> read the columns themselves, so
  they raise \<^verbatim>\<open>KeyError\<close>. Titles and axis labels are left out.
\<close>

datatype chart = LineChart | ScatterChart | Subplots

record figure =
  fig_kind :: chart
  fig_data :: frame
  fig_x :: string
  fig_y :: "string list"

fun px_chart :: "chart \<Rightarrow> frame \<Rightarrow> label \<Rightarrow> string list \<Rightarrow> error + figure" where
  "px_chart k t (Name x) ys =
     (if x \<in> set (columns t) \<and> list_all (\<lambda>y. y \<in> set (columns t)) ys
      then Inr \<lparr>fig_kind = k, fig_data = t, fig_x = x, fig_y = ys\<rparr>
      else Inl ValueError)"
| "px_chart k t NoneLabel ys = Inl ValueError"
| "px_chart k t StrType ys = Inl ValueError"

fun go_traces :: "frame \<Rightarrow> label \<Rightarrow> string list \<Rightarrow> error + figure" where
  "go_traces t (Name x) ys =
     (if x \<in> set (columns t) \<and> list_all (\<lambda>y. y \<in> set (columns t)) ys
      then Inr \<lparr>fig_kind = Subplots, fig_data = t, fig_x = x, fig_y = ys\<rparr>
      else Inl KeyError)"
| "go_traces t NoneLabel ys = Inl KeyError"
| "go_traces t StrType ys = Inl KeyError"

text \<open>What \<^verbatim>\<open>print\<close> writes: a line of text, a value, or a table.\<close>

datatype printed = Line string | Item cell | Table frame

section \<open>Spend versus activity\<close>

subsection \<open>The dashboard: \<^verbatim>\<open>get_spend_vs_activity_plot_interact\<close>\<close>

text \<open>
  The row filter that the callbacks of the dashboard all start with:
  \<^verbatim>\<open>data[(data["variable_description"] == touchpoint) & (data["activity_type"] == activity)
  & (data[date_col] >= start_date) & (data[date_col] <= end_date)]\<close>.
\<close>

definition sva_filter :: "frame \<Rightarrow> string \<Rightarrow> cell \<Rightarrow> cell \<Rightarrow> cell \<Rightarrow> cell \<Rightarrow> error + frame" where
  "sva_filter data date_col touchpoint activity start_date end_date =
     ebind (df_getitem data (Name ''variable_description'')) (\<lambda>vd.
     ebind (df_getitem data (Name ''activity_type'')) (\<lambda>atype.
     ebind (df_getitem data (Name date_col)) (\<lambda>d1.
     ebind (series_ge d1 start_date) (\<lambda>m3.
     ebind (df_getitem data (Name date_col)) (\<lambda>d2.
     ebind (series_le d2 end_date) (\<lambda>m4.
     Inr (df_mask data
            (mask_and (mask_and (mask_and (series_eq vd touchpoint) (series_eq atype activity))
               m3) m4))))))))"

text \<open>
  The end of both callbacks: the cost-per-activity line, then the figure for the plot
  type. A plot type that is neither of the two leaves \<^verbatim>\<open>fig\<close> unbound at the return.
\<close>

definition sva_figures :: "frame \<Rightarrow> string \<Rightarrow> string \<Rightarrow> error + figure \<times> figure" where
  "sva_figures temp date_col plot_type =
     ebind (px_chart LineChart temp (Name date_col) [''cost_per_act'']) (\<lambda>cpm_fig.
     ebind (if plot_type = ''Time Series''
            then go_traces temp (Name date_col) [''Spend'', ''Activity'']
            else if plot_type = ''Scatter Plot''
            then px_chart ScatterChart temp (Name ''Activity'') [''Spend'']
            else Inl UnboundLocalError) (\<lambda>fig.
     Inr (fig, cpm_fig)))"

text \<open>\<^verbatim>\<open>update_graph1\<close> of the branch \<^verbatim>\<open>group_col is None\<close> (lines 82 to 133).\<close>

definition sva_update_graph1 ::
  "frame \<Rightarrow> string \<Rightarrow> cell \<Rightarrow> cell \<Rightarrow> string \<Rightarrow> cell \<Rightarrow> cell \<Rightarrow> error + figure \<times> figure" where
  "sva_update_graph1 data date_col touchpoint activity plot_type start_date end_date =
     ebind (sva_filter data date_col touchpoint activity start_date end_date) (\<lambda>temp.
     ebind (cost_per_act temp) (\<lambda>temp.
     sva_figures temp date_col plot_type))"

text \<open>The grouping key of the dashboard with a group column.\<close>

definition groups_key :: "string \<Rightarrow> string list" where
  "groups_key date_col =
     [date_col, ''variable_activity_root'', ''variable_description'', ''activity_type'']"

text \<open>The group filter \<^verbatim>\<open>temp[temp[group_col] == geo]\<close>.\<close>

definition group_filter :: "frame \<Rightarrow> label \<Rightarrow> cell \<Rightarrow> error + frame" where
  "group_filter temp group_col gv =
     ebind (df_getitem temp group_col) (\<lambda>g.
     Inr (df_mask temp (series_eq g gv)))"

text \<open>\<^verbatim>\<open>update_graph1\<close> of the branch with a group column (lines 192 to 276).\<close>

definition sva_update_graph1_geo ::
  "frame \<Rightarrow> string \<Rightarrow> string \<Rightarrow> cell \<Rightarrow> cell \<Rightarrow> string \<Rightarrow> cell \<Rightarrow> cell \<Rightarrow> cell
     \<Rightarrow> error + figure \<times> figure" where
  "sva_update_graph1_geo data date_col group_col touchpoint activity plot_type geo
       start_date end_date =
     ebind (if geo = Str ''all_values''
            then
              ebind (sva_filter data date_col touchpoint activity start_date end_date) (\<lambda>temp.
              groupby_sum temp (groups_key date_col))
            else
              ebind (sva_filter data date_col touchpoint activity start_date end_date) (\<lambda>temp.
              ebind (group_filter temp (Name group_col) geo) (\<lambda>temp.
              groupby_sum temp (groups_key date_col)))
           ) (\<lambda>temp.
     ebind (cost_per_act temp) (\<lambda>temp.
     sva_figures temp date_col plot_type))"

subsection \<open>The static plot: \<^verbatim>\<open>get_spend_vs_activity_plot\<close>\<close>

text \<open>The first statement: the bounds are the column's own when no range is given.\<close>

definition date_bounds :: "frame \<Rightarrow> cell list \<Rightarrow> label \<Rightarrow> error + cell \<times> cell" where
  "date_bounds spend_activity_data date_range date_col =
     (case date_range of
        [] \<Rightarrow>
          ebind (df_getitem spend_activity_data date_col) (\<lambda>d1.
          ebind (series_min d1) (\<lambda>start_date.
          ebind (df_getitem spend_activity_data date_col) (\<lambda>d2.
          ebind (series_max d2) (\<lambda>end_date.
          Inr (start_date, end_date)))))
      | [start_date] \<Rightarrow> Inl IndexError
      | start_date # end_date # rest \<Rightarrow> Inr (start_date, end_date))"

text \<open>
  \<^verbatim>\<open>x.lower() in map(str.lower, values)\<close>: the values are lowered one at a time, up to
  the first match; \<^verbatim>\<open>str.lower\<close> raises on a value that is no string.
\<close>

fun lower_in :: "string \<Rightarrow> cell list \<Rightarrow> error + bool" where
  "lower_in s [] = Inr False"
| "lower_in s (Str u # vs) = (if lower u = s then Inr True else lower_in s vs)"
| "lower_in s (v # vs) = Inl TypeError"

definition sva_message :: "string \<Rightarrow> string" where
  "sva_message v =
     [CHR 0x27] @ v @ [CHR 0x27] @ '' activity type is not available for the given variable''
       @ [CHR 0x0A] @ ''        The availabale activities are: ''"

text \<open>The row filter of lines 363 to 389, with the group predicate when a group value is given.\<close>

definition sva_filter_lower ::
  "frame \<Rightarrow> string \<Rightarrow> string \<Rightarrow> cell \<Rightarrow> cell \<Rightarrow> label \<Rightarrow> label \<Rightarrow> cell option \<Rightarrow> error + frame" where
  "sva_filter_lower spend_activity_data variable_description activity_type start_date end_date
       date_col group_col group_value =
     ebind (df_getitem spend_activity_data (Name ''variable_description'')) (\<lambda>vd.
     ebind (df_getitem spend_activity_data (Name ''activity_type'')) (\<lambda>atype.
     ebind (df_getitem spend_activity_data date_col) (\<lambda>d1.
     ebind (series_ge d1 start_date) (\<lambda>m3.
     ebind (df_getitem spend_activity_data date_col) (\<lambda>d2.
     ebind (series_le d2 end_date) (\<lambda>m4.
     let m = mask_and (mask_and (mask_and
               (series_eq (map str_lower vd) (Str (lower variable_description)))
               (series_eq (map str_lower atype) (Str (lower activity_type)))) m3) m4
     in (case group_value of
           None \<Rightarrow> Inr (df_mask spend_activity_data m)
         | Some gv \<Rightarrow>
             ebind (df_getitem spend_activity_data group_col) (\<lambda>g.
             Inr (df_mask spend_activity_data (mask_and m (series_eq g gv)))))))))))"

text \<open>
  Lines 326 to 361: the date bounds, then the two selector checks. The outcome is what
  was printed and either an exception, or nothing (the function has returned
  \<^verbatim>\<open>None\<close>), or the bounds with which the function goes on.
\<close>

definition sva_checks ::
  "frame \<Rightarrow> string \<Rightarrow> string \<Rightarrow> cell list \<Rightarrow> label
     \<Rightarrow> printed list \<times> (error + (cell \<times> cell) option)" where
  "sva_checks spend_activity_data variable_description activity_type date_range date_col =
     (case date_bounds spend_activity_data date_range date_col of
        Inl e \<Rightarrow> ([], Inl e)
      | Inr bounds \<Rightarrow>
     (case df_getitem spend_activity_data (Name ''variable_description'') of
        Inl e \<Rightarrow> ([], Inl e)
      | Inr vd \<Rightarrow>
     (case lower_in (lower variable_description) (unique vd) of
        Inl e \<Rightarrow> ([], Inl e)
      | Inr False \<Rightarrow>
          (Line (sva_message variable_description) # map Item (unique vd), Inr None)
      | Inr True \<Rightarrow>
     (case df_getitem
             (df_mask spend_activity_data
                (series_eq (map str_lower vd) (Str (lower variable_description))))
             (Name ''activity_type'') of
        Inl e \<Rightarrow> ([], Inl e)
      | Inr acts \<Rightarrow>
     (case lower_in (lower activity_type) (unique acts) of
        Inl e \<Rightarrow> ([], Inl e)
      | Inr False \<Rightarrow> (Line (sva_message activity_type) # map Item (unique acts), Inr None)
      | Inr True \<Rightarrow> ([], Inr (Some bounds)))))))"

text \<open>Lines 391 to 449: the derived column and the figure with its three traces.\<close>

definition sva_plot :: "frame \<Rightarrow> label \<Rightarrow> error + figure option" where
  "sva_plot temp date_col =
     ebind (cost_per_act temp) (\<lambda>temp.
     ebind (go_traces temp date_col [''Spend'', ''Activity'', ''cost_per_act'']) (\<lambda>fig.
     Inr (Some fig)))"

definition get_spend_vs_activity_plot ::
  "frame \<Rightarrow> string \<Rightarrow> string \<Rightarrow> cell list \<Rightarrow> label \<Rightarrow> label \<Rightarrow> cell option
     \<Rightarrow> printed list \<times> (error + figure option)" where
  "get_spend_vs_activity_plot spend_activity_data variable_description activity_type date_range
       date_col group_col group_value =
     (case sva_checks spend_activity_data variable_description activity_type date_range
             date_col of
        (out, Inl e) \<Rightarrow> (out, Inl e)
      | (out, Inr None) \<Rightarrow> (out, Inr None)
      | (out, Inr (Some (start_date, end_date))) \<Rightarrow>
          (out,
           ebind (sva_filter_lower spend_activity_data variable_description activity_type
                    start_date end_date date_col group_col group_value) (\<lambda>temp.
           sva_plot temp date_col)))"

section \<open>Quarterly spends\<close>

text \<open>
  The two callbacks \<^verbatim>\<open>update_graph1\<close> of \<^verbatim>\<open>get_quarterly_spends_plot_interact\<close> (lines 495
  to 503 and 534 to 548), then \<^verbatim>\<open>get_quarterly_spends_plot\<close>.
\<close>

text \<open>The filter \<^verbatim>\<open>data[(data["variable_description"] == v)]\<close> of both quarterly functions.\<close>

definition qs_filter :: "frame \<Rightarrow> cell \<Rightarrow> error + frame" where
  "qs_filter data v =
     ebind (df_getitem data (Name ''variable_description'')) (\<lambda>vd.
     Inr (df_mask data (series_eq vd v)))"

definition qs_update_graph1 :: "frame \<Rightarrow> cell \<Rightarrow> error + figure" where
  "qs_update_graph1 data touchpoint =
     ebind (qs_filter data touchpoint) (\<lambda>temp.
     px_chart LineChart temp (Name ''YEAR_QTR'') [''value''])"

definition qs_update_graph1_geo :: "frame \<Rightarrow> string \<Rightarrow> cell \<Rightarrow> cell \<Rightarrow> error + figure" where
  "qs_update_graph1_geo data group_col touchpoint geo =
     ebind (if geo = Str ''all_values''
            then
              ebind (qs_filter data touchpoint) (\<lambda>temp.
              groupby_sum temp [''YEAR_QTR''])
            else
              ebind (qs_filter data touchpoint) (\<lambda>temp.
              ebind (group_filter temp (Name group_col) geo) (\<lambda>temp.
              groupby_sum temp [''YEAR_QTR'']))) (\<lambda>temp.
     px_chart LineChart temp (Name ''YEAR_QTR'') [''value''])"

definition qs_message :: "string \<Rightarrow> string" where
  "qs_message v =
     [CHR 0x27] @ v @ [CHR 0x27] @ '' activity type is not available for the given variable''
       @ [CHR 0x0A] @ ''        The available activities are: ''"

text \<open>Lines 586 to 596: the selector check; \<open>True\<close> when the function goes on.\<close>

definition qs_checks :: "frame \<Rightarrow> string \<Rightarrow> printed list \<times> (error + bool)" where
  "qs_checks quarterly_spend_data spend_variable_description =
     (case df_getitem quarterly_spend_data (Name ''variable_description'') of
        Inl e \<Rightarrow> ([], Inl e)
      | Inr vd \<Rightarrow>
     (case lower_in (lower spend_variable_description) (unique vd) of
        Inl e \<Rightarrow> ([], Inl e)
      | Inr False \<Rightarrow>
          (Line (qs_message spend_variable_description) # map Item (unique vd), Inr False)
      | Inr True \<Rightarrow> ([], Inr True)))"

definition get_quarterly_spends_plot ::
  "frame \<Rightarrow> label \<Rightarrow> string \<Rightarrow> cell option \<Rightarrow> printed list \<times> (error + figure option)" where
  "get_quarterly_spends_plot quarterly_spend_data group_col spend_variable_description
       group_value =
     (case qs_checks quarterly_spend_data spend_variable_description of
        (out, Inl e) \<Rightarrow> (out, Inl e)
      | (out, Inr False) \<Rightarrow> (out, Inr None)
      | (out, Inr True) \<Rightarrow>
          (out,
           ebind (case group_value of
                    None \<Rightarrow>
                      ebind (qs_filter quarterly_spend_data (Str spend_variable_description))
                        (\<lambda>temp.
                      groupby_sum temp [''YEAR_QTR''])
                  | Some gv \<Rightarrow>
                      ebind (qs_filter quarterly_spend_data (Str spend_variable_description))
                        (\<lambda>temp.
                      ebind (group_filter temp group_col gv) (\<lambda>temp.
                      groupby_sum temp [''YEAR_QTR'']))) (\<lambda>temp.
           ebind (px_chart LineChart temp (Name ''YEAR_QTR'') [''value'']) (\<lambda>fig.
           Inr (Some fig)))))"

section \<open>Actual versus predicted\<close>

text \<open>
  Both functions start from a copy of the table and, when \<^verbatim>\<open>is_log is True\<close>, put
  \<^verbatim>\<open>np.exp\<close> of the columns \<^verbatim>\<open>actuals\<close> and \<^verbatim>\<open>preds\<close> in their place (lines 653 to 657
  and 744 to 748).
\<close>

definition np_exp :: "cell list \<Rightarrow> error + cell list" where
  "np_exp xs = seq_err (map cell_exp xs)"

definition avp_data :: "frame \<Rightarrow> bool \<Rightarrow> error + frame" where
  "avp_data act_vs_preds is_log =
     (let data = act_vs_preds in
      if is_log then
        ebind (df_getitem data (Name ''actuals'')) (\<lambda>a.
        ebind (np_exp a) (\<lambda>ea.
        ebind (df_setitem data ''actuals'' ea) (\<lambda>data.
        ebind (df_getitem data (Name ''preds'')) (\<lambda>p.
        ebind (np_exp p) (\<lambda>ep.
        df_setitem data ''preds'' ep)))))
      else Inr data)"

text \<open>
  \<^verbatim>\<open>update_figure\<close>, the callback of \<^verbatim>\<open>get_actual_vs_predicted_plot_interact\<close>; its
  \<open>data\<close> is the table that \<open>avp_data\<close> prepared.
\<close>

definition update_figure :: "frame \<Rightarrow> string \<Rightarrow> string \<Rightarrow> cell \<Rightarrow> error + figure" where
  "update_figure data date_col group_col selected_g =
     ebind (if selected_g = Str ''select_all''
            then groupby_sum data [date_col]
            else group_filter data (Name group_col) selected_g) (\<lambda>filtered_df.
     px_chart LineChart filtered_df (Name date_col) [''actuals'', ''preds''])"

text \<open>
  \<^verbatim>\<open>get_actual_vs_predicted_plot\<close>. The \<^verbatim>\<open>try\<close> block catches every exception of the
  group filter and prints a message; \<^verbatim>\<open>filtered_df\<close> is then unbound where the chart is
  built.
\<close>

definition get_actual_vs_predicted_plot ::
  "frame \<Rightarrow> string \<Rightarrow> string \<Rightarrow> bool \<Rightarrow> label \<Rightarrow> cell option \<Rightarrow> printed list \<times> (error + figure)" where
  "get_actual_vs_predicted_plot act_vs_preds date_col dv_col is_log group_col group_value =
     (case avp_data act_vs_preds is_log of
        Inl e \<Rightarrow> ([], Inl e)
      | Inr data \<Rightarrow>
          if group_value = Some (Str ''all'') \<or> group_value = None then
            ([], ebind (groupby_sum data [date_col]) (\<lambda>filtered_df.
                 px_chart LineChart filtered_df (Name date_col) [''actuals'', ''preds'']))
          else
            (case group_filter data group_col (the group_value) of
               Inl e \<Rightarrow> ([Line ''Please enter a valid group column name''], Inl UnboundLocalError)
             | Inr filtered_df \<Rightarrow>
                 ([Table filtered_df],
                  px_chart LineChart filtered_df (Name date_col) [''actuals'', ''preds''])))"

section \<open>Tables as objects\<close>

text \<open>
  In Python a table is an object and a variable holds a reference to it; two variables
  can hold the same object, and \<^verbatim>\<open>df[col] = series\<close> changes the object for both. The
  heap below holds the table objects. An expression that builds a table (\<^verbatim>\<open>df[mask]\<close>,
  \<^verbatim>\<open>df.copy()\<close>, \<^verbatim>\<open>df.groupby(...).sum().reset_index()\<close>) makes a new object;
  \<^verbatim>\<open>df[col] = series\<close> writes into the object it is given. The functions of the module
  are written once more as commands on the heap, statement by statement, with the
  expressions taken from the sections above.
\<close>

type_synonym ref = nat

record heap =
  objs :: "ref \<Rightarrow> frame"
  next_ref :: ref

type_synonym 'a cmd = "heap \<Rightarrow> (error + 'a) \<times> heap"

definition cbind :: "'a cmd \<Rightarrow> ('a \<Rightarrow> 'b cmd) \<Rightarrow> 'b cmd" where
  "cbind m f h = (case m h of (Inl e, h1) \<Rightarrow> (Inl e, h1) | (Inr x, h1) \<Rightarrow> f x h1)"

text \<open>An expression that reads a table and builds no table.\<close>

definition cread :: "ref \<Rightarrow> (frame \<Rightarrow> error + 'a) \<Rightarrow> 'a cmd" where
  "cread a f h = (f (objs h a), h)"

text \<open>An expression that reads a table and builds a new one.\<close>

definition cnew :: "ref \<Rightarrow> (frame \<Rightarrow> error + frame) \<Rightarrow> ref cmd" where
  "cnew a f h =
     (case f (objs h a) of
        Inl e \<Rightarrow> (Inl e, h)
      | Inr t \<Rightarrow> (Inr (next_ref h),
                  h\<lparr>objs := (objs h)(next_ref h := t), next_ref := Suc (next_ref h)\<rparr>))"

text \<open>\<^verbatim>\<open>a[c] = f(a)\<close>: the new column is computed from the table and written into it.\<close>

definition cset :: "ref \<Rightarrow> string \<Rightarrow> (frame \<Rightarrow> error + cell list) \<Rightarrow> unit cmd" where
  "cset a c f h =
     (case ebind (f (objs h a)) (df_setitem (objs h a) c) of
        Inl e \<Rightarrow> (Inl e, h)
      | Inr t \<Rightarrow> (Inr (), h\<lparr>objs := (objs h)(a := t)\<rparr>))"

definition o_cost_per_act :: "ref \<Rightarrow> unit cmd" where
  "o_cost_per_act temp =
     cbind (cset temp ''cost_per_act'' (\<lambda>t.
              ebind (df_getitem t (Name ''Spend'')) (\<lambda>spend.
              ebind (df_getitem t (Name ''Activity'')) (\<lambda>activity.
              series_div spend activity)))) (\<lambda>u.
     cset temp ''cost_per_act'' (\<lambda>t.
       ebind (df_getitem t (Name ''cost_per_act'')) (\<lambda>c.
       Inr (map (\<lambda>v. replace_inf0 (fillna0 v)) c))))"

definition o_sva_update_graph1 ::
  "ref \<Rightarrow> string \<Rightarrow> cell \<Rightarrow> cell \<Rightarrow> string \<Rightarrow> cell \<Rightarrow> cell \<Rightarrow> (figure \<times> figure) cmd" where
  "o_sva_update_graph1 data date_col touchpoint activity plot_type start_date end_date =
     cbind (cnew data (\<lambda>t. sva_filter t date_col touchpoint activity start_date end_date))
       (\<lambda>temp.
     cbind (o_cost_per_act temp) (\<lambda>u.
     cread temp (\<lambda>t. sva_figures t date_col plot_type)))"

definition o_sva_update_graph1_geo ::
  "ref \<Rightarrow> string \<Rightarrow> string \<Rightarrow> cell \<Rightarrow> cell \<Rightarrow> string \<Rightarrow> cell \<Rightarrow> cell \<Rightarrow> cell
     \<Rightarrow> (figure \<times> figure) cmd" where
  "o_sva_update_graph1_geo data date_col group_col touchpoint activity plot_type geo
       start_date end_date =
     cbind (if geo = Str ''all_values''
            then
              cbind (cnew data (\<lambda>t. sva_filter t date_col touchpoint activity start_date
                                      end_date)) (\<lambda>temp.
              cnew temp (\<lambda>t. groupby_sum t (groups_key date_col)))
            else
              cbind (cnew data (\<lambda>t. sva_filter t date_col touchpoint activity start_date
                                      end_date)) (\<lambda>temp.
              cbind (cnew temp (\<lambda>t. group_filter t (Name group_col) geo)) (\<lambda>temp.
              cnew temp (\<lambda>t. groupby_sum t (groups_key date_col))))) (\<lambda>temp.
     cbind (o_cost_per_act temp) (\<lambda>u.
     cread temp (\<lambda>t. sva_figures t date_col plot_type)))"

text \<open>A function that prints: what it printed, its outcome, and the heap it leaves.\<close>

definition o_get_spend_vs_activity_plot ::
  "ref \<Rightarrow> string \<Rightarrow> string \<Rightarrow> cell list \<Rightarrow> label \<Rightarrow> label \<Rightarrow> cell option \<Rightarrow> heap
     \<Rightarrow> (printed list \<times> (error + figure option)) \<times> heap" where
  "o_get_spend_vs_activity_plot spend_activity_data variable_description activity_type
       date_range date_col group_col group_value h =
     (case sva_checks (objs h spend_activity_data) variable_description activity_type
             date_range date_col of
        (out, Inl e) \<Rightarrow> ((out, Inl e), h)
      | (out, Inr None) \<Rightarrow> ((out, Inr None), h)
      | (out, Inr (Some (start_date, end_date))) \<Rightarrow>
          (case cbind (cnew spend_activity_data (\<lambda>t.
                         sva_filter_lower t variable_description activity_type start_date
                           end_date date_col group_col group_value)) (\<lambda>temp.
                cbind (o_cost_per_act temp) (\<lambda>u.
                cread temp (\<lambda>t.
                  ebind (go_traces t date_col [''Spend'', ''Activity'', ''cost_per_act''])
                    (\<lambda>fig. Inr (Some fig))))) h of
             (r, h1) \<Rightarrow> ((out, r), h1)))"

definition o_qs_update_graph1 :: "ref \<Rightarrow> cell \<Rightarrow> figure cmd" where
  "o_qs_update_graph1 data touchpoint =
     cbind (cnew data (\<lambda>t. qs_filter t touchpoint)) (\<lambda>temp.
     cread temp (\<lambda>t. px_chart LineChart t (Name ''YEAR_QTR'') [''value'']))"

definition o_qs_update_graph1_geo :: "ref \<Rightarrow> string \<Rightarrow> cell \<Rightarrow> cell \<Rightarrow> figure cmd" where
  "o_qs_update_graph1_geo data group_col touchpoint geo =
     cbind (if geo = Str ''all_values''
            then
              cbind (cnew data (\<lambda>t. qs_filter t touchpoint)) (\<lambda>temp.
              cnew temp (\<lambda>t. groupby_sum t [''YEAR_QTR'']))
            else
              cbind (cnew data (\<lambda>t. qs_filter t touchpoint)) (\<lambda>temp.
              cbind (cnew temp (\<lambda>t. group_filter t (Name group_col) geo)) (\<lambda>temp.
              cnew temp (\<lambda>t. groupby_sum t [''YEAR_QTR''])))) (\<lambda>temp.
     cread temp (\<lambda>t. px_chart LineChart t (Name ''YEAR_QTR'') [''value'']))"

definition o_get_quarterly_spends_plot ::
  "ref \<Rightarrow> label \<Rightarrow> string \<Rightarrow> cell option \<Rightarrow> heap
     \<Rightarrow> (printed list \<times> (error + figure option)) \<times> heap" where
  "o_get_quarterly_spends_plot quarterly_spend_data group_col spend_variable_description
       group_value h =
     (case qs_checks (objs h quarterly_spend_data) spend_variable_description of
        (out, Inl e) \<Rightarrow> ((out, Inl e), h)
      | (out, Inr False) \<Rightarrow> ((out, Inr None), h)
      | (out, Inr True) \<Rightarrow>
          (case cbind (case group_value of
                         None \<Rightarrow>
                           cbind (cnew quarterly_spend_data (\<lambda>t.
                                    qs_filter t (Str spend_variable_description))) (\<lambda>temp.
                           cnew temp (\<lambda>t. groupby_sum t [''YEAR_QTR'']))
                       | Some gv \<Rightarrow>
                           cbind (cnew quarterly_spend_data (\<lambda>t.
                                    qs_filter t (Str spend_variable_description))) (\<lambda>temp.
                           cbind (cnew temp (\<lambda>t. group_filter t group_col gv)) (\<lambda>temp.
                           cnew temp (\<lambda>t. groupby_sum t [''YEAR_QTR''])))) (\<lambda>temp.
                cread temp (\<lambda>t.
                  ebind (px_chart LineChart t (Name ''YEAR_QTR'') [''value''])
                    (\<lambda>fig. Inr (Some fig)))) h of
             (r, h1) \<Rightarrow> ((out, r), h1)))"

text \<open>
  \<^verbatim>\<open>data = act_vs_preds.copy()\<close>, then the two assignments into \<^verbatim>\<open>data\<close> when
  \<^verbatim>\<open>is_log is True\<close>.
\<close>

definition o_avp_data :: "ref \<Rightarrow> bool \<Rightarrow> ref cmd" where
  "o_avp_data act_vs_preds is_log =
     cbind (cnew act_vs_preds Inr) (\<lambda>data.
     if is_log then
       cbind (cset data ''actuals'' (\<lambda>t.
                ebind (df_getitem t (Name ''actuals'')) np_exp)) (\<lambda>u.
       cbind (cset data ''preds'' (\<lambda>t.
                ebind (df_getitem t (Name ''preds'')) np_exp)) (\<lambda>u.
       (\<lambda>h. (Inr data, h))))
     else (\<lambda>h. (Inr data, h)))"

definition o_update_figure :: "ref \<Rightarrow> string \<Rightarrow> string \<Rightarrow> cell \<Rightarrow> figure cmd" where
  "o_update_figure data date_col group_col selected_g =
     cbind (if selected_g = Str ''select_all''
            then cnew data (\<lambda>t. groupby_sum t [date_col])
            else cnew data (\<lambda>t. group_filter t (Name group_col) selected_g)) (\<lambda>filtered_df.
     cread filtered_df (\<lambda>t. px_chart LineChart t (Name date_col) [''actuals'', ''preds'']))"

definition o_get_actual_vs_predicted_plot ::
  "ref \<Rightarrow> string \<Rightarrow> string \<Rightarrow> bool \<Rightarrow> label \<Rightarrow> cell option \<Rightarrow> heap
     \<Rightarrow> (printed list \<times> (error + figure)) \<times> heap" where
  "o_get_actual_vs_predicted_plot act_vs_preds date_col dv_col is_log group_col group_value h =
     (case o_avp_data act_vs_preds is_log h of
        (Inl e, h1) \<Rightarrow> (([], Inl e), h1)
      | (Inr data, h1) \<Rightarrow>
          if group_value = Some (Str ''all'') \<or> group_value = None then
            (case cbind (cnew data (\<lambda>t. groupby_sum t [date_col])) (\<lambda>filtered_df.
                  cread filtered_df (\<lambda>t.
                    px_chart LineChart t (Name date_col) [''actuals'', ''preds''])) h1 of
               (r, h2) \<Rightarrow> (([], r), h2))
          else
            (case cnew data (\<lambda>t. group_filter t group_col (the group_value)) h1 of
               (Inl e, h2) \<Rightarrow>
                 (([Line ''Please enter a valid group column name''], Inl UnboundLocalError), h2)
             | (Inr filtered_df, h2) \<Rightarrow>
                 (([Table (objs h2 filtered_df)],
                   px_chart LineChart (objs h2 filtered_df) (Name date_col)
                     [''actuals'', ''preds'']), h2)))"

section \<open>Example tables\<close>

text \<open>
  The scenario of the specification: one variable and one activity type on three days,
  with spends 100, 0, 50 and activities 10, 0, 0.
\<close>

definition scenario :: frame where
  "scenario =
     \<lparr>columns = [''date'', ''variable_description'', ''activity_type'', ''Spend'', ''Activity''],
      rows = [row_of [(''date'', Dt 1), (''variable_description'', Str ''TV''),
                      (''activity_type'', Str ''Impressions''),
                      (''Spend'', Num (Fin 100)), (''Activity'', Num (Fin 10))],
              row_of [(''date'', Dt 2), (''variable_description'', Str ''TV''),
                      (''activity_type'', Str ''Impressions''),
                      (''Spend'', Num (Fin 0)), (''Activity'', Num (Fin 0))],
              row_of [(''date'', Dt 3), (''variable_description'', Str ''TV''),
                      (''activity_type'', Str ''Impressions''),
                      (''Spend'', Num (Fin 50)), (''Activity'', Num (Fin 0))]]\<rparr>"

text \<open>
  Two rows whose quotient is an infinity: an infinite spend over activity 2, and the
  spend 2 to the power 1000 over the activity 2 to the power -1000, two finite floats
  whose quotient is beyond the largest float.
\<close>

definition extremes :: frame where
  "extremes =
     \<lparr>columns = [''date'', ''variable_description'', ''activity_type'', ''Spend'', ''Activity''],
      rows = [row_of [(''date'', Dt 1), (''variable_description'', Str ''TV''),
                      (''activity_type'', Str ''Impressions''),
                      (''Spend'', Num PInf), (''Activity'', Num (Fin 2))],
              row_of [(''date'', Dt 2), (''variable_description'', Str ''TV''),
                      (''activity_type'', Str ''Impressions''),
                      (''Spend'', Num (Fin (2 ^ 1000))),
                      (''Activity'', Num (Fin (1 / 2 ^ 1000)))]]\<rparr>"

text \<open>
  Two rows of one day, variable and activity type, in two regions: spend 10 over
  activity 2, and spend 5 over activity 3.
\<close>

definition two_regions :: frame where
  "two_regions =
     \<lparr>columns = [''date'', ''variable_activity_root'', ''variable_description'',
                 ''activity_type'', ''region'', ''Spend'', ''Activity''],
      rows = [row_of [(''date'', Dt 1), (''variable_activity_root'', Str ''tv''),
                      (''variable_description'', Str ''TV''),
                      (''activity_type'', Str ''Impressions''), (''region'', Str ''east''),
                      (''Spend'', Num (Fin 10)), (''Activity'', Num (Fin 2))],
              row_of [(''date'', Dt 1), (''variable_activity_root'', Str ''tv''),
                      (''variable_description'', Str ''TV''),
                      (''activity_type'', Str ''Impressions''), (''region'', Str ''west''),
                      (''Spend'', Num (Fin 5)), (''Activity'', Num (Fin 3))]]\<rparr>"



text \<open>Two regions on one day, with log-scale actuals and predictions 0.\<close>

definition avp_table :: frame where
  "avp_table =
     \<lparr>columns = [''date'', ''region'', ''actuals'', ''preds''],
      rows = [row_of [(''date'', Dt 1), (''region'', Str ''east''),
                      (''actuals'', Num (Fin 0)), (''preds'', Num (Fin 0))],
              row_of [(''date'', Dt 1), (''region'', Str ''west''),
                      (''actuals'', Num (Fin 0)), (''preds'', Num (Fin 0))]]\<rparr>"


text \<open>
  Two variables, each with its own activity type; three rows of quarterly spends of one
  variable in two regions; and the cells of the table that a figure holds.
\<close>

definition two_variables :: frame where
  "two_variables =
     \<lparr>columns = [''date'', ''variable_description'', ''activity_type'', ''Spend'', ''Activity''],
      rows = [row_of [(''date'', Dt 1), (''variable_description'', Str ''TV''),
                      (''activity_type'', Str ''Impressions''),
                      (''Spend'', Num (Fin 100)), (''Activity'', Num (Fin 10))],
              row_of [(''date'', Dt 1), (''variable_description'', Str ''Radio''),
                      (''activity_type'', Str ''Spots''),
                      (''Spend'', Num (Fin 50)), (''Activity'', Num (Fin 5))]]\<rparr>"

text \<open>The first of these tables with the variable description missing in its second row.\<close>

definition missing_description :: frame where
  "missing_description =
     \<lparr>columns = [''date'', ''variable_description'', ''activity_type'', ''Spend'', ''Activity''],
      rows = [row_of [(''date'', Dt 1), (''variable_description'', Str ''TV''),
                      (''activity_type'', Str ''Impressions''),
                      (''Spend'', Num (Fin 100)), (''Activity'', Num (Fin 10))],
              row_of [(''date'', Dt 1), (''variable_description'', Num NaN),
                      (''activity_type'', Str ''Spots''),
                      (''Spend'', Num (Fin 50)), (''Activity'', Num (Fin 5))]]\<rparr>"

definition quarterly :: frame where
  "quarterly =
     \<lparr>columns = [''YEAR_QTR'', ''variable_description'', ''region'', ''value''],
      rows = [row_of [(''YEAR_QTR'', Str ''2021Q1''), (''variable_description'', Str ''TV''),
                      (''region'', Str ''east''), (''value'', Num (Fin 10))],
              row_of [(''YEAR_QTR'', Str ''2021Q1''), (''variable_description'', Str ''TV''),
                      (''region'', Str ''east''), (''value'', Num (Fin 5))],
              row_of [(''YEAR_QTR'', Str ''2021Q1''), (''variable_description'', Str ''TV''),
                      (''region'', Str ''west''), (''value'', Num (Fin 7))]]\<rparr>"

definition shown :: "figure \<Rightarrow> cell list list" where
  "shown fig = cells_of (fig_data fig)"


text \<open>A heap that holds one table, at the reference 0.\<close>

definition one_table :: "frame \<Rightarrow> heap" where
  "one_table t = \<lparr>objs = (\<lambda>a. t), next_ref = 1\<rparr>"

section \<open>Facts about the building blocks\<close>

lemma ebind_Inr: "ebind m f = Inr y \<longleftrightarrow> (\<exists>x. m = Inr x \<and> f x = Inr y)"
  by (cases m) (simp_all add: ebind_def)

lemma seq_err_map_Inr: "seq_err (map Inr ys) = Inr ys"
  by (induction ys) simp_all

lemma seq_err_Inr_D: "seq_err ms = Inr ys \<Longrightarrow> ms = map Inr ys"
proof (induction ms arbitrary: ys)
  case Nil
  then show ?case by simp
next
  case (Cons m ms)
  show ?case
  proof (cases m)
    case (Inl e)
    with Cons.prems show ?thesis by simp
  next
    case (Inr x)
    with Cons.prems obtain zs where z: "seq_err ms = Inr zs" and y: "ys = x # zs"
      by (auto split: sum.splits)
    from Cons.IH[OF z] Inr y show ?thesis by simp
  qed
qed

lemma seq_err_Inr: "seq_err ms = Inr ys \<longleftrightarrow> ms = map Inr ys"
  using seq_err_Inr_D seq_err_map_Inr by blast

lemma seq_err_map_fun:
  assumes "seq_err (map f xs) = Inr ys"
  shows "ys = map (\<lambda>x. projr (f x)) xs" and "\<forall>x\<in>set xs. f x = Inr (projr (f x))"
proof -
  from assms have m: "map f xs = map Inr ys" by (simp add: seq_err_Inr)
  have "map (\<lambda>x. projr (f x)) xs = map projr (map f xs)" by simp
  also have "\<dots> = ys" unfolding m by (simp add: comp_def)
  finally show "ys = map (\<lambda>x. projr (f x)) xs" by simp
  show "\<forall>x\<in>set xs. f x = Inr (projr (f x))"
  proof
    fix x assume "x \<in> set xs"
    then have "f x \<in> set (map f xs)" by simp
    with m obtain v where "f x = Inr v" by auto
    then show "f x = Inr (projr (f x))" by simp
  qed
qed

lemma map_zip_fun: "map (\<lambda>(r, v). h r v) (zip xs (map g xs)) = map (\<lambda>r. h r (g r)) xs"
  by (induction xs) simp_all

lemma map_zip_fun2:
  "map (\<lambda>(r, v). h r v) (zip (map f xs) (map g xs)) = map (\<lambda>r. h (f r) (g r)) xs"
  by (induction xs) simp_all

lemma cell_div_Inr: "cell_div x y = Inr v \<longleftrightarrow> (\<exists>a b. x = Num a \<and> y = Num b \<and> v = Num (fl_div a b))"
  by (cases x; cases y) auto

lemma series_div_Inr:
  assumes "series_div (map f rs) (map g rs) = Inr q"
  shows "q = map (\<lambda>r. projr (cell_div (f r) (g r))) rs"
    and "\<forall>r\<in>set rs. \<exists>a b. f r = Num a \<and> g r = Num b"
proof -
  from assms have m: "seq_err (map (\<lambda>r. cell_div (f r) (g r)) rs) = Inr q"
    by (simp add: series_div_def zip_map_map zip_same_conv_map comp_def)
  from seq_err_map_fun[OF m] show "q = map (\<lambda>r. projr (cell_div (f r) (g r))) rs"
    by simp
  show "\<forall>r\<in>set rs. \<exists>a b. f r = Num a \<and> g r = Num b"
    using seq_err_map_fun(2)[OF m] by (metis cell_div_Inr)
qed

lemma cost_per_act_rows:
  assumes "cost_per_act temp = Inr temp'"
  shows "rows temp' = map (\<lambda>r. r(''cost_per_act'' :=
            replace_inf0 (fillna0 (projr (cell_div (r ''Spend'') (r ''Activity'')))))) (rows temp)"
    and "\<forall>r\<in>set (rows temp). \<exists>a b. r ''Spend'' = Num a \<and> r ''Activity'' = Num b"
    and "set (columns temp') = insert ''cost_per_act'' (set (columns temp))"
    and "''Spend'' \<in> set (columns temp)" and "''Activity'' \<in> set (columns temp)"
proof -
  from assms obtain q where
    s: "''Spend'' \<in> set (columns temp)" and a: "''Activity'' \<in> set (columns temp)"
    and q: "series_div (map (\<lambda>r. r ''Spend'') (rows temp)) (map (\<lambda>r. r ''Activity'') (rows temp)) = Inr q"
    and r: "ebind (df_setitem temp ''cost_per_act'' q) (\<lambda>temp1.
              ebind (df_getitem temp1 (Name ''cost_per_act'')) (\<lambda>c.
              df_setitem temp1 ''cost_per_act'' (map (\<lambda>v. replace_inf0 (fillna0 v)) c))) = Inr temp'"
    by (auto simp: cost_per_act_def ebind_Inr column_values_def split: if_splits)
  note qq = series_div_Inr[OF q]
  have len: "length q = length (rows temp)" using qq(1) by simp
  define q1 where "q1 = map (\<lambda>(r, v). r(''cost_per_act'' := v)) (zip (rows temp) q)"
  have q1: "q1 = map (\<lambda>r. r(''cost_per_act'' := projr (cell_div (r ''Spend'') (r ''Activity'')))) (rows temp)"
    unfolding q1_def qq(1) by (simp add: map_zip_fun)
  from r len have t': "rows temp' = map (\<lambda>(r, v). r(''cost_per_act'' := v))
       (zip q1 (map (\<lambda>v. replace_inf0 (fillna0 v)) (map (\<lambda>r. r ''cost_per_act'') q1)))"
    by (auto simp: ebind_Inr df_setitem_def column_values_def q1_def split: if_splits)
  show "rows temp' = map (\<lambda>r. r(''cost_per_act'' :=
            replace_inf0 (fillna0 (projr (cell_div (r ''Spend'') (r ''Activity'')))))) (rows temp)"
    unfolding t' q1 by (simp add: comp_def map_zip_fun2)
  show "\<forall>r\<in>set (rows temp). \<exists>a b. r ''Spend'' = Num a \<and> r ''Activity'' = Num b"
    using qq(2) .
  from r len show "set (columns temp') = insert ''cost_per_act'' (set (columns temp))"
    by (auto simp: ebind_Inr df_setitem_def column_values_def split: if_splits)
  show "''Spend'' \<in> set (columns temp)" "''Activity'' \<in> set (columns temp)" using s a .
qed

subsection \<open>Rounding a quotient\<close>

text \<open>
  The rounded number is a nearest multiple of \<open>ulp\<close>; it is a finite float, within half an
  \<open>ulp\<close> of the real number, up to \<open>2 ^ 1023\<close>, and an infinity from \<open>2 ^ 1024\<close> on. Whole
  numbers below \<open>2 ^ 53\<close> are floats, and a number below \<open>1 / 2 ^ 1075\<close> becomes zero.
\<close>

lemma ulp_pos: "0 < ulp x"
  by (simp add: ulp_def)

lemma rnd53_zero: "rnd53 0 = 0"
  by (simp add: rnd53_def)

lemma rnd53_nearest:
  assumes "x \<noteq> 0"
  shows "\<exists>g::int. rnd53 x = of_int g * ulp x \<and> \<bar>of_int g - x / ulp x\<bar> \<le> 1 / 2"
proof -
  let ?m = "x / ulp x"
  let ?f = "\<lfloor>?m\<rfloor>"
  have f: "of_int ?f \<le> ?m" "?m < of_int ?f + 1" by linarith+
  show ?thesis
  proof (cases "?m - of_int ?f < 1 / 2 \<or> (?m - of_int ?f = 1 / 2 \<and> even ?f)")
    case True
    have "rnd53 x = of_int ?f * ulp x"
      by (simp only: rnd53_def Let_def assms True if_True if_False)
    moreover have "\<bar>of_int ?f - ?m\<bar> \<le> 1 / 2" using True f by auto
    ultimately show ?thesis by blast
  next
    case False
    have "rnd53 x = (of_int ?f + 1) * ulp x"
      by (simp only: rnd53_def Let_def assms False if_True if_False)
    then have "rnd53 x = of_int (?f + 1) * ulp x" by simp
    moreover have "\<bar>of_int (?f + 1) - ?m\<bar> \<le> 1 / 2" using False f by auto
    ultimately show ?thesis by blast
  qed
qed

lemma rnd53_error:
  assumes "x \<noteq> 0"
  shows "\<bar>rnd53 x - x\<bar> \<le> ulp x / 2"
proof -
  from rnd53_nearest[OF assms] obtain g :: int where
    g: "rnd53 x = of_int g * ulp x" "\<bar>of_int g - x / ulp x\<bar> \<le> 1 / 2" by blast
  have "rnd53 x - x = (of_int g - x / ulp x) * ulp x"
    using ulp_pos[of x] by (simp add: g(1) field_simps)
  then have "\<bar>rnd53 x - x\<bar> = \<bar>of_int g - x / ulp x\<bar> * ulp x"
    using ulp_pos[of x] by (simp add: abs_mult)
  also have "\<dots> \<le> (1 / 2) * ulp x"
    using g(2) ulp_pos[of x] by (intro mult_right_mono) auto
  finally show ?thesis by simp
qed

lemma ulp_le:
  assumes "x \<noteq> 0"
  shows "ulp x \<le> max (\<bar>x\<bar> / 2 ^ 52) (1 / 2 ^ 1074)"
proof (cases "\<lfloor>log 2 \<bar>x\<bar>\<rfloor> - 52 \<le> - 1074")
  case True
  then have "ulp x = 2 powr (- 1074)" by (simp add: ulp_def max_def)
  also have "\<dots> = 1 / 2 ^ 1074" by (simp add: powr_minus inverse_eq_divide)
  finally show ?thesis by simp
next
  case False
  then have "ulp x = 2 powr (of_int (\<lfloor>log 2 \<bar>x\<bar>\<rfloor> - 52))" by (simp add: ulp_def max_def)
  also have "\<dots> = 2 powr (of_int \<lfloor>log 2 \<bar>x\<bar>\<rfloor>) / 2 ^ 52"
    by (simp add: powr_diff)
  also have "\<dots> \<le> 2 powr (log 2 \<bar>x\<bar>) / 2 ^ 52"
    by (intro divide_right_mono powr_mono) auto
  also have "\<dots> = \<bar>x\<bar> / 2 ^ 52" using assms by simp
  finally show ?thesis by simp
qed


lemma round64_finite:
  assumes "\<bar>x\<bar> \<le> 2 ^ 1023"
  shows "\<exists>q. round64 x = Fin q \<and> \<bar>q - x\<bar> \<le> max (\<bar>x\<bar> / 2 ^ 53) (1 / 2 ^ 1075)"
proof (cases "x = 0")
  case True
  then show ?thesis by (simp add: round64_def rnd53_zero)
next
  case False
  have e: "\<bar>rnd53 x - x\<bar> \<le> max (\<bar>x\<bar> / 2 ^ 53) (1 / 2 ^ 1075)"
    using rnd53_error[OF False] ulp_le[OF False] by (auto simp: max_def split: if_splits)
  have "max (\<bar>x\<bar> / 2 ^ 53) (1 / 2 ^ 1075) \<le> (2::real) ^ 1023 / 2 ^ 53"
    using assms by (auto simp: max_def divide_right_mono)
  with e have "\<bar>rnd53 x\<bar> \<le> 2 ^ 1023 + (2::real) ^ 1023 / 2 ^ 53" using assms by linarith
  also have "\<dots> < (2::real) ^ 1024" by simp
  finally have "round64 x = Fin (rnd53 x)" by (simp add: round64_def Let_def)
  with e show ?thesis by blast
qed

lemma ulp_large:
  assumes "2 ^ 1024 \<le> \<bar>x\<bar>"
  shows "2 ^ 52 * ulp x \<le> \<bar>x\<bar>" and "2 ^ 1024 \<le> 2 ^ 52 * ulp x"
proof -
  have x: "0 < \<bar>x\<bar>" using assms by (smt (verit) zero_less_power)
  have "1024 \<le> log 2 \<bar>x\<bar>" using assms x by (subst le_log_iff) auto
  then have k: "1024 \<le> \<lfloor>log 2 \<bar>x\<bar>\<rfloor>" by (simp add: le_floor_iff)
  then have "max (\<lfloor>log 2 \<bar>x\<bar>\<rfloor> - 52) (- 1074) = \<lfloor>log 2 \<bar>x\<bar>\<rfloor> - 52" by linarith
  then have u: "ulp x = 2 powr (of_int \<lfloor>log 2 \<bar>x\<bar>\<rfloor>) / 2 ^ 52"
    by (simp add: ulp_def powr_diff)
  have "2 powr (of_int \<lfloor>log 2 \<bar>x\<bar>\<rfloor>) \<le> 2 powr (log 2 \<bar>x\<bar>)"
    by (intro powr_mono) auto
  also have "\<dots> = \<bar>x\<bar>" using x by simp
  finally show "2 ^ 52 * ulp x \<le> \<bar>x\<bar>" by (simp add: u)
  have "(2::real) powr 1024 \<le> 2 powr (of_int \<lfloor>log 2 \<bar>x\<bar>\<rfloor>)"
    using k by (intro powr_mono) auto
  then show "2 ^ 1024 \<le> 2 ^ 52 * ulp x" by (simp add: u)
qed

lemma round64_overflow:
  assumes "2 ^ 1024 \<le> \<bar>x\<bar>"
  shows "round64 x = (if 0 < x then PInf else NInf)"
proof -
  have x0: "x \<noteq> 0" using assms by (smt (verit) zero_less_power)
  from rnd53_nearest[OF x0] obtain g :: int where
    g: "rnd53 x = of_int g * ulp x" "\<bar>of_int g - x / ulp x\<bar> \<le> 1 / 2" by blast
  note u = ulp_large[OF assms] ulp_pos[of x]
  have m: "2 ^ 52 \<le> \<bar>x / ulp x\<bar>"
    using u(1,3) by (simp add: abs_divide pos_le_divide_eq)
  show ?thesis
  proof (cases "0 < x")
    case True
    then have "2 ^ 52 \<le> x / ulp x" using m u(3) by (simp add: abs_divide)
    with g(2) have "(2::real) ^ 52 - 1 / 2 \<le> of_int g" by linarith
    then have "real_of_int (2 ^ 52 - 1) < of_int g" by simp
    then have "(2::int) ^ 52 - 1 < g" by (simp only: of_int_less_iff)
    then have "(2::int) ^ 52 \<le> g" by simp
    then have "real_of_int (2 ^ 52) \<le> of_int g" by (simp only: of_int_le_iff)
    then have "(2::real) ^ 52 \<le> of_int g" by simp
    then have "2 ^ 52 * ulp x \<le> of_int g * ulp x" using u(3) by (intro mult_right_mono) auto
    from order_trans[OF u(2) this] have "2 ^ 1024 \<le> rnd53 x" by (simp only: g(1))
    then show ?thesis using True by (simp add: round64_def Let_def)
  next
    case False
    then have "x < 0" using x0 by simp
    then have "x / ulp x \<le> - (2 ^ 52)" using m u(3) by (simp add: abs_divide abs_if divide_less_0_iff split: if_splits)
    with g(2) have "of_int g \<le> - ((2::real) ^ 52) + 1 / 2" by linarith
    then have "of_int g < real_of_int (- (2 ^ 52) + 1)" by simp
    then have "g < - ((2::int) ^ 52) + 1" by (simp only: of_int_less_iff)
    then have "g \<le> - ((2::int) ^ 52)" by simp
    then have "of_int g \<le> real_of_int (- (2 ^ 52))" by (simp only: of_int_le_iff)
    then have "of_int g \<le> - ((2::real) ^ 52)" by simp
    then have "of_int g * ulp x \<le> - (2 ^ 52) * ulp x" using u(3) by (intro mult_right_mono) auto
    moreover have "- (2 ^ 52) * ulp x \<le> - (2 ^ 1024)" using u(2) by (simp only: mult_minus_left neg_le_iff_le)
    ultimately have "rnd53 x \<le> - (2 ^ 1024)" unfolding g(1) by (rule order_trans)
    then show ?thesis using False by (simp add: round64_def Let_def)
  qed
qed


lemma rnd53_exact:
  assumes "x / ulp x = of_int i"
  shows "rnd53 x = x"
proof (cases "x = 0")
  case True
  then show ?thesis by (simp add: rnd53_zero)
next
  case False
  have "rnd53 x = of_int i * ulp x"
    using False by (simp add: rnd53_def Let_def assms)
  also have "\<dots> = x" using assms ulp_pos[of x] by (simp add: field_simps)
  finally show ?thesis .
qed

lemma ulp_int:
  assumes "n \<noteq> 0" and "\<bar>n\<bar> < 2 ^ 53"
  shows "\<exists>j. ulp (of_int n) * 2 ^ j = 1"
proof -
  let ?x = "real_of_int n"
  let ?k = "\<lfloor>log 2 \<bar>?x\<bar>\<rfloor>"
  have "1 \<le> \<bar>n\<bar>" using assms(1) by simp
  then have "real_of_int 1 \<le> real_of_int \<bar>n\<bar>" by (simp only: of_int_le_iff)
  then have x: "1 \<le> \<bar>?x\<bar>" by simp
  have "real_of_int \<bar>n\<bar> < real_of_int (2 ^ 53)" using assms(2) by (simp only: of_int_less_iff)
  then have "\<bar>?x\<bar> < 2 powr 53" by simp
  then have "log 2 \<bar>?x\<bar> < 53" using x by (subst log_less_iff) auto
  then have k53: "?k < 53" by (simp add: floor_less_iff)
  have "0 \<le> log 2 \<bar>?x\<bar>" using x by simp
  then have k0: "0 \<le> ?k" by simp
  define j where "j = nat (52 - ?k)"
  have j: "of_int ?k = 52 - real j" using k0 k53 by (auto simp: j_def)
  have "max (?k - 52) (- 1074) = ?k - 52" using k0 by linarith
  then have "ulp ?x = 2 powr (of_int ?k - 52)" by (simp add: ulp_def)
  also have "\<dots> = 2 powr (- real j)" by (simp add: j)
  also have "\<dots> = 1 / 2 ^ j" by (simp add: powr_minus powr_realpow inverse_eq_divide)
  finally have "ulp ?x * 2 ^ j = 1" by simp
  then show ?thesis by blast
qed

lemma rnd53_int:
  assumes "\<bar>n\<bar> < 2 ^ 53"
  shows "rnd53 (of_int n) = of_int n"
proof (cases "n = 0")
  case True
  then show ?thesis by (simp add: rnd53_zero)
next
  case False
  from ulp_int[OF False assms] obtain j where j: "ulp (of_int n) * 2 ^ j = 1" by blast
  have "real_of_int n / ulp (of_int n) = real_of_int n * (ulp (of_int n) * 2 ^ j) / ulp (of_int n)"
    by (simp only: j mult_1_right)
  also have "\<dots> = of_int (n * 2 ^ j)" using ulp_pos[of "of_int n"] by simp
  finally show ?thesis by (rule rnd53_exact)
qed

lemma round64_int:
  assumes "\<bar>n\<bar> < 2 ^ 53"
  shows "round64 (of_int n) = Fin (of_int n)"
proof -
  have "real_of_int \<bar>n\<bar> < real_of_int (2 ^ 53)" using assms by (simp only: of_int_less_iff)
  then have "\<bar>real_of_int n\<bar> < 2 ^ 53" by simp
  also have "\<dots> < (2::real) ^ 1024" by simp
  finally show ?thesis by (simp add: round64_def rnd53_int[OF assms])
qed

lemma round64_numeral:
  "(numeral w :: int) < 2 ^ 53 \<Longrightarrow> round64 (numeral w) = Fin (numeral w)"
  using round64_int[of "numeral w"] by simp

lemma round64_0: "round64 0 = Fin 0"
  by (simp add: round64_def rnd53_zero)

lemma round64_underflow:
  assumes "\<bar>x\<bar> < 1 / 2 ^ 1075"
  shows "round64 x = Fin 0"
proof (cases "x = 0")
  case True
  then show ?thesis by (simp add: round64_0)
next
  case False
  then have x: "0 < \<bar>x\<bar>" by simp
  have "\<bar>x\<bar> < 2 powr (- 1075)" using assms by (simp add: powr_minus inverse_eq_divide)
  then have "log 2 \<bar>x\<bar> < - 1075" using x by (subst log_less_iff) auto
  then have "\<lfloor>log 2 \<bar>x\<bar>\<rfloor> < - 1075" by (simp add: floor_less_iff)
  then have "max (\<lfloor>log 2 \<bar>x\<bar>\<rfloor> - 52) (- 1074) = - 1074" by linarith
  then have "ulp x = 2 powr (- 1074)" by (simp add: ulp_def)
  then have u: "ulp x = 1 / 2 ^ 1074" by (simp add: powr_minus inverse_eq_divide)
  from rnd53_nearest[OF False] obtain g :: int where
    g: "rnd53 x = of_int g * ulp x" "\<bar>of_int g - x / ulp x\<bar> \<le> 1 / 2" by blast
  have "\<bar>x / ulp x\<bar> = \<bar>x\<bar> * 2 ^ 1074" by (simp add: u abs_mult)
  also have "\<dots> < 1 / 2 ^ 1075 * 2 ^ 1074" using assms by (intro mult_strict_right_mono) auto
  also have "\<dots> = 1 / 2" by simp
  finally have "\<bar>real_of_int g\<bar> < 1" using g(2) by linarith
  then have "g = 0" by linarith
  then show ?thesis by (simp add: round64_def g(1))
qed

lemma ratio_finite:
  "b \<noteq> 0 \<Longrightarrow> replace_inf0 (fillna0 (Num (fl_div (Fin a) (Fin b))))
     = (case round64 (a / b) of Fin q \<Rightarrow> Num (Fin q) | PInf \<Rightarrow> Num (Fin 0)
        | NInf \<Rightarrow> Num (Fin 0) | NaN \<Rightarrow> Num (Fin 0))"
  by (cases "round64 (a / b)") simp_all

lemma ratio_zero:
  "b = Fin 0 \<or> a = NaN \<or> b = NaN \<or> a = PInf \<or> a = NInf \<or> b = PInf \<or> b = NInf
   \<Longrightarrow> replace_inf0 (fillna0 (Num (fl_div a b))) = Num (Fin 0)"
  by (cases a; cases b) auto

lemma ratio_never_special: "\<exists>x. replace_inf0 (fillna0 (Num (fl_div a b))) = Num (Fin x)"
  by (cases "fl_div a b") simp_all


subsection \<open>Masks are filters\<close>

lemma mask_filter: "map fst (filter snd (zip xs (map P xs))) = filter P xs"
  by (induction xs) simp_all

lemma df_mask_filter: "df_mask t (map P (rows t)) = t\<lparr>rows := filter P (rows t)\<rparr>"
  by (simp add: df_mask_def mask_filter)

lemma mask_and_map: "mask_and (map P xs) (map Q xs) = map (\<lambda>x. P x \<and> Q x) xs"
  by (induction xs) (simp_all add: mask_and_def)

lemma series_eq_column:
  "series_eq (map f rs) v = map (\<lambda>r. py_eq (f r) v) rs"
  by (simp add: series_eq_def)

lemma seq_err_bools:
  assumes "seq_err (map f xs) = Inr bs"
  shows "bs = map (\<lambda>x. f x = Inr True) xs"
proof -
  note m = seq_err_map_fun[OF assms]
  have "\<forall>x\<in>set xs. projr (f x) = (f x = Inr True)"
  proof
    fix x assume "x \<in> set xs"
    with m(2) have "f x = Inr (projr (f x))" by blast
    then show "projr (f x) = (f x = Inr True)" by (cases "projr (f x)") (auto simp: )
  qed
  with m(1) show ?thesis by simp
qed

lemma series_ge_column:
  "series_ge (map f rs) s = Inr m \<Longrightarrow> m = map (\<lambda>r. cell_le s (f r) = Inr True) rs"
  using seq_err_bools[of "\<lambda>r. cell_le s (f r)" rs m] by (simp add: series_ge_def comp_def)

lemma series_le_column:
  "series_le (map f rs) e = Inr m \<Longrightarrow> m = map (\<lambda>r. cell_le (f r) e = Inr True) rs"
  using seq_err_bools[of "\<lambda>r. cell_le (f r) e" rs m] by (simp add: series_le_def comp_def)

lemma qs_filter_eq:
  "qs_filter t v =
     (if ''variable_description'' \<in> set (columns t)
      then Inr (t\<lparr>rows := filter (\<lambda>r. py_eq (r ''variable_description'') v) (rows t)\<rparr>)
      else Inl KeyError)"
  by (simp add: qs_filter_def ebind_def column_values_def series_eq_column df_mask_filter)

lemma group_filter_eq:
  "group_filter t (Name g) v =
     (if g \<in> set (columns t)
      then Inr (t\<lparr>rows := filter (\<lambda>r. py_eq (r g) v) (rows t)\<rparr>)
      else Inl KeyError)"
  by (simp add: group_filter_def ebind_def column_values_def series_eq_column df_mask_filter)

lemma group_filter_no_column:
  "group_filter t NoneLabel v = Inl KeyError" "group_filter t StrType v = Inl KeyError"
  by (simp_all add: group_filter_def ebind_def)

lemma sva_filter_Inr:
  assumes "sva_filter t dc tp ac s e = Inr temp"
  shows "temp = t\<lparr>rows := filter (\<lambda>r. py_eq (r ''variable_description'') tp
                  \<and> py_eq (r ''activity_type'') ac
                  \<and> cell_le s (r dc) = Inr True \<and> cell_le (r dc) e = Inr True) (rows t)\<rparr>"
    and "''variable_description'' \<in> set (columns t)" and "''activity_type'' \<in> set (columns t)"
    and "dc \<in> set (columns t)"
proof -
  from assms obtain m3 m4 where
    c: "''variable_description'' \<in> set (columns t)" "''activity_type'' \<in> set (columns t)"
       "dc \<in> set (columns t)"
    and m3: "series_ge (map (\<lambda>r. r dc) (rows t)) s = Inr m3"
    and m4: "series_le (map (\<lambda>r. r dc) (rows t)) e = Inr m4"
    and t: "temp = df_mask t (mask_and (mask_and (mask_and
              (series_eq (map (\<lambda>r. r ''variable_description'') (rows t)) tp)
              (series_eq (map (\<lambda>r. r ''activity_type'') (rows t)) ac)) m3) m4)"
    by (auto simp: sva_filter_def ebind_Inr column_values_def split: if_splits)
  show "temp = t\<lparr>rows := filter (\<lambda>r. py_eq (r ''variable_description'') tp
                  \<and> py_eq (r ''activity_type'') ac
                  \<and> cell_le s (r dc) = Inr True \<and> cell_le (r dc) e = Inr True) (rows t)\<rparr>"
    unfolding t series_ge_column[OF m3] series_le_column[OF m4]
    by (simp add: series_eq_column mask_and_map df_mask_filter conj_assoc)
  show "''variable_description'' \<in> set (columns t)" "''activity_type'' \<in> set (columns t)"
    "dc \<in> set (columns t)" using c .
qed

subsection \<open>Group and sum\<close>

lemma set_unique: "set (unique xs) = set xs"
  by (induction xs rule: unique.induct) auto











text \<open>The definitions that the evaluation of a function on a concrete table unfolds.\<close>

lemmas eval_defs = ebind_def column_values_def cells_of_def row_of_def df_setitem_def df_mask_def
  series_eq_def series_ge_def series_le_def mask_and_def py_eq_def series_min_def series_max_def
  series_div_def cost_per_act_def fl_sort_le_def sort_keys_def key_of_def group_sum_def
  group_row_def groupby_sum_def groups_key_def lower_def lower_char_def is_upper_def
  round64_numeral round64_0 Let_def


lemmas fun_defs = sva_filter_def sva_figures_def sva_update_graph1_def group_filter_def
  sva_update_graph1_geo_def date_bounds_def sva_filter_lower_def sva_checks_def
  sva_plot_def get_spend_vs_activity_plot_def qs_filter_def qs_update_graph1_def
  qs_update_graph1_geo_def qs_checks_def get_quarterly_spends_plot_def
  np_exp_def avp_data_def update_figure_def get_actual_vs_predicted_plot_def

subsection \<open>The exponential step\<close>

lemma cell_exp_Inr: "cell_exp x = Inr v \<longleftrightarrow> (\<exists>a. x = Num a \<and> v = Num (fl_exp a))"
  by (cases x) auto

lemma np_exp_Inr:
  assumes "np_exp (map f rs) = Inr q"
  shows "q = map (\<lambda>r. projr (cell_exp (f r))) rs" and "\<forall>r\<in>set rs. \<exists>a. f r = Num a"
proof -
  from assms have m: "seq_err (map (\<lambda>r. cell_exp (f r)) rs) = Inr q"
    by (simp add: np_exp_def comp_def)
  from seq_err_map_fun(1)[OF m] show "q = map (\<lambda>r. projr (cell_exp (f r))) rs" .
  show "\<forall>r\<in>set rs. \<exists>a. f r = Num a"
    using seq_err_map_fun(2)[OF m] by (metis cell_exp_Inr)
qed

lemma avp_data_plain: "avp_data t False = Inr t"
  by (simp add: avp_data_def)

lemma avp_data_exp:
  assumes "avp_data t True = Inr data"
  shows "columns data = columns t"
    and "rows data = map (\<lambda>r. r(''actuals'' := projr (cell_exp (r ''actuals'')),
                                 ''preds'' := projr (cell_exp (r ''preds'')))) (rows t)"
    and "\<forall>r\<in>set (rows t). \<exists>a p. r ''actuals'' = Num a \<and> r ''preds'' = Num p"
proof -
  let ?u = "\<lambda>r::row. r(''actuals'' := projr (cell_exp (r ''actuals'')))"
  from assms obtain ea d1 ep where
    a: "''actuals'' \<in> set (columns t)"
    and ea: "np_exp (map (\<lambda>r. r ''actuals'') (rows t)) = Inr ea"
    and d1: "df_setitem t ''actuals'' ea = Inr d1"
    and p: "''preds'' \<in> set (columns d1)"
    and ep: "np_exp (map (\<lambda>r. r ''preds'') (rows d1)) = Inr ep"
    and d2: "df_setitem d1 ''preds'' ep = Inr data"
    by (auto simp: avp_data_def ebind_Inr column_values_def Let_def split: if_splits)
  note e1 = np_exp_Inr[OF ea]
  from d1 a have c1: "columns d1 = columns t" and r1: "rows d1 = map ?u (rows t)"
    by (auto simp: df_setitem_def e1(1) map_zip_fun split: if_splits)
  note e2 = np_exp_Inr[OF ep]
  from d2 p show "columns data = columns t"
    by (auto simp: df_setitem_def c1 split: if_splits)
  from d2 show "rows data = map (\<lambda>r. r(''actuals'' := projr (cell_exp (r ''actuals'')),
                                 ''preds'' := projr (cell_exp (r ''preds'')))) (rows t)"
    by (auto simp: df_setitem_def e2(1) map_zip_fun2 r1 comp_def split: if_splits)
  from e1(2) e2(2) show "\<forall>r\<in>set (rows t). \<exists>a p. r ''actuals'' = Num a \<and> r ''preds'' = Num p"
    by (auto simp: r1)
qed

lemma avp_data_columns: "avp_data t il = Inr data \<Longrightarrow> columns data = columns t"
  by (cases il) (auto simp: avp_data_plain dest: avp_data_exp(1))






subsection \<open>Selector checks\<close>

text \<open>
  Lowering reaches the capital letters beyond A to Z: a capital E with an acute accent
  (\<open>0xC9\<close>) becomes the small one (\<open>0xE9\<close>), and the multiplication sign between the two
  ranges of capitals (\<open>0xD7\<close>) stays.
\<close>

lemma lower_latin1:
  "lower [CHR ''T'', CHR 0xC9] = [CHR ''t'', CHR 0xE9]"
  "lower [CHR ''t'', CHR 0xE9] = [CHR ''t'', CHR 0xE9]"
  "lower [CHR 0xD7] = [CHR 0xD7]"
  by (simp_all add: lower_def lower_char_def is_upper_def)

lemma df_getitem_Inr:
  "df_getitem t l = Inr xs \<longleftrightarrow> (\<exists>c. l = Name c \<and> c \<in> set (columns t) \<and> xs = column_values t c)"
  by (cases l) auto

lemma unique_map_inj: "inj f \<Longrightarrow> unique (map f xs) = map f (unique xs)"
proof (induction xs rule: unique.induct)
  case 1
  show ?case by simp
next
  case (2 x xs)
  have "removeAll (f x) (map f xs) = map f (removeAll x xs)"
    using 2(2) by (induction xs) (auto dest: injD)
  with 2 show ?case by simp
qed

lemma lower_in_strings: "lower_in s (map Str us) = Inr (s \<in> lower ` set us)"
  by (induction us) auto

lemma py_eq_Str: "py_eq x (Str s) \<longleftrightarrow> x = Str s"
  by (auto simp: py_eq_def)

lemma str_lower_eq_Str: "str_lower x = Str s \<longleftrightarrow> (\<exists>u. x = Str u \<and> lower u = s)"
  by (cases x) auto

lemma df_mask_columns: "columns (df_mask t m) = columns t"
  by (simp add: df_mask_def)

lemma sva_checks_Some:
  assumes "sva_checks t v a dr dc = (out, Inr (Some b))"
  shows "out = []" and "date_bounds t dr dc = Inr b"
    and "''variable_description'' \<in> set (columns t)" and "''activity_type'' \<in> set (columns t)"
  using assms
  by (auto simp: sva_checks_def df_mask_columns split: sum.splits bool.splits if_splits)

lemma sva_checks_outcomes:
  "(\<exists>e. sva_checks t v a dr dc = ([], Inl e))
   \<or> (\<exists>out. sva_checks t v a dr dc = (out, Inr None))
   \<or> (\<exists>b. sva_checks t v a dr dc = ([], Inr (Some b)))"
  by (auto simp: sva_checks_def split: sum.splits bool.splits if_splits)

lemma date_bounds_default_empty: "date_bounds t [] StrType = Inl KeyError"
  by (simp add: date_bounds_def ebind_def)

subsection \<open>The working tables\<close>

lemma sva_filter_lower_Inr:
  assumes "sva_filter_lower t v a s e (Name dc) gcl gv = Inr temp"
  shows "temp = t\<lparr>rows := filter (\<lambda>r. str_lower (r ''variable_description'') = Str (lower v)
                  \<and> str_lower (r ''activity_type'') = Str (lower a)
                  \<and> cell_le s (r dc) = Inr True \<and> cell_le (r dc) e = Inr True
                  \<and> (\<forall>x gc. gv = Some x \<and> gcl = Name gc \<longrightarrow> py_eq (r gc) x)) (rows t)\<rparr>"
    and "gv \<noteq> None \<Longrightarrow> \<exists>gc. gcl = Name gc \<and> gc \<in> set (columns t)"
proof -
  from assms obtain m3 m4 where
    m3: "series_ge (map (\<lambda>r. r dc) (rows t)) s = Inr m3"
    and m4: "series_le (map (\<lambda>r. r dc) (rows t)) e = Inr m4"
    and t: "(let m = mask_and (mask_and (mask_and
               (series_eq (map str_lower (map (\<lambda>r. r ''variable_description'') (rows t)))
                  (Str (lower v)))
               (series_eq (map str_lower (map (\<lambda>r. r ''activity_type'') (rows t)))
                  (Str (lower a)))) m3) m4
     in (case gv of
           None \<Rightarrow> Inr (df_mask t m)
         | Some x \<Rightarrow>
             ebind (df_getitem t gcl) (\<lambda>g.
             Inr (df_mask t (mask_and m (series_eq g x)))))) = Inr temp"
    by (auto simp: sva_filter_lower_def ebind_Inr column_values_def split: if_splits)
  let ?P = "\<lambda>r. str_lower (r ''variable_description'') = Str (lower v)
                  \<and> str_lower (r ''activity_type'') = Str (lower a)
                  \<and> cell_le s (r dc) = Inr True \<and> cell_le (r dc) e = Inr True"
  have m: "mask_and (mask_and (mask_and
               (series_eq (map str_lower (map (\<lambda>r. r ''variable_description'') (rows t)))
                  (Str (lower v)))
               (series_eq (map str_lower (map (\<lambda>r. r ''activity_type'') (rows t)))
                  (Str (lower a)))) m3) m4 = map ?P (rows t)"
    unfolding series_ge_column[OF m3] series_le_column[OF m4]
    by (simp add: series_eq_def mask_and_map comp_def py_eq_Str conj_assoc)
  show "temp = t\<lparr>rows := filter (\<lambda>r. str_lower (r ''variable_description'') = Str (lower v)
                  \<and> str_lower (r ''activity_type'') = Str (lower a)
                  \<and> cell_le s (r dc) = Inr True \<and> cell_le (r dc) e = Inr True
                  \<and> (\<forall>x gc. gv = Some x \<and> gcl = Name gc \<longrightarrow> py_eq (r gc) x)) (rows t)\<rparr>"
  proof (cases gv)
    case None
    with t m show ?thesis by (simp add: df_mask_filter conj_assoc)
  next
    case (Some x)
    with t m obtain gc where gc: "gcl = Name gc" "gc \<in> set (columns t)"
      and tt: "temp = df_mask t (mask_and (map ?P (rows t)) (series_eq (column_values t gc) x))"
      by (auto simp: ebind_Inr df_getitem_Inr)
    show ?thesis unfolding tt
      by (simp add: column_values_def series_eq_def mask_and_map df_mask_filter gc Some
          conj_assoc)
  qed
  show "gv \<noteq> None \<Longrightarrow> \<exists>gc. gcl = Name gc \<and> gc \<in> set (columns t)"
    using t by (cases gv) (auto simp: Let_def ebind_Inr df_getitem_Inr)
qed

subsection \<open>What each function hands to the chart emitter\<close>

lemma px_chart_Inr: "px_chart k t l ys = Inr fig \<Longrightarrow> fig_data fig = t"
  by (cases l) (auto split: if_splits)

lemma go_traces_Inr: "go_traces t l ys = Inr fig \<Longrightarrow> fig_data fig = t \<and> (\<exists>x. l = Name x)"
  by (cases l) (auto split: if_splits)

lemma sva_figures_Inr:
  "sva_figures temp dc pt = Inr (fig, cpm) \<Longrightarrow> fig_data fig = temp \<and> fig_data cpm = temp"
  by (auto simp: sva_figures_def ebind_Inr simp del: px_chart.simps go_traces.simps
      dest: px_chart_Inr go_traces_Inr split: if_splits)

lemma sva_update_graph1_Inr:
  assumes "sva_update_graph1 t dc tp ac pt s e = Inr (fig, cpm)"
  shows "cost_per_act (t\<lparr>rows := filter (\<lambda>r. py_eq (r ''variable_description'') tp
                  \<and> py_eq (r ''activity_type'') ac
                  \<and> cell_le s (r dc) = Inr True \<and> cell_le (r dc) e = Inr True) (rows t)\<rparr>)
           = Inr (fig_data fig)"
    and "fig_data cpm = fig_data fig"
proof -
  from assms obtain temp temp' where f: "sva_filter t dc tp ac s e = Inr temp"
    and c: "cost_per_act temp = Inr temp'" and g: "sva_figures temp' dc pt = Inr (fig, cpm)"
    by (auto simp: sva_update_graph1_def ebind_Inr)
  from sva_figures_Inr[OF g] have d: "fig_data fig = temp'" "fig_data cpm = temp'" by simp_all
  from c show "cost_per_act (t\<lparr>rows := filter (\<lambda>r. py_eq (r ''variable_description'') tp
                  \<and> py_eq (r ''activity_type'') ac
                  \<and> cell_le s (r dc) = Inr True \<and> cell_le (r dc) e = Inr True) (rows t)\<rparr>)
           = Inr (fig_data fig)"
    unfolding sva_filter_Inr(1)[OF f] d by simp
  show "fig_data cpm = fig_data fig" by (simp add: d)
qed

lemma sva_update_graph1_geo_Inr:
  assumes "sva_update_graph1_geo t dc gc tp ac pt geo s e = Inr (fig, cpm)"
  shows "\<exists>grouped.
           groupby_sum (t\<lparr>rows := filter (\<lambda>r. (py_eq (r ''variable_description'') tp
                  \<and> py_eq (r ''activity_type'') ac
                  \<and> cell_le s (r dc) = Inr True \<and> cell_le (r dc) e = Inr True)
                  \<and> (geo \<noteq> Str ''all_values'' \<longrightarrow> py_eq (r gc) geo)) (rows t)\<rparr>)
             (groups_key dc) = Inr grouped
           \<and> cost_per_act grouped = Inr (fig_data fig)"
    and "fig_data cpm = fig_data fig"
proof -
  let ?P = "\<lambda>r. py_eq (r ''variable_description'') tp \<and> py_eq (r ''activity_type'') ac
                  \<and> cell_le s (r dc) = Inr True \<and> cell_le (r dc) e = Inr True"
  from assms obtain temp grouped temp' where f: "sva_filter t dc tp ac s e = Inr temp"
    and gr: "(if geo = Str ''all_values'' then groupby_sum temp (groups_key dc)
             else ebind (group_filter temp (Name gc) geo) (\<lambda>temp.
                  groupby_sum temp (groups_key dc))) = Inr grouped"
    and c: "cost_per_act grouped = Inr temp'" and g: "sva_figures temp' dc pt = Inr (fig, cpm)"
    by (auto simp: sva_update_graph1_geo_def ebind_Inr split: if_splits)
  from sva_figures_Inr[OF g] have d: "fig_data fig = temp'" "fig_data cpm = temp'" by simp_all
  have t: "temp = t\<lparr>rows := filter ?P (rows t)\<rparr>" using sva_filter_Inr(1)[OF f] .
  have "groupby_sum (t\<lparr>rows := filter (\<lambda>r. ?P r
                  \<and> (geo \<noteq> Str ''all_values'' \<longrightarrow> py_eq (r gc) geo)) (rows t)\<rparr>)
             (groups_key dc) = Inr grouped"
  proof (cases "geo = Str ''all_values''")
    case True
    with gr show ?thesis by (simp add: t)
  next
    case False
    with gr show ?thesis
      by (auto simp: t group_filter_eq ebind_Inr split: if_splits)
  qed
  with c show "\<exists>grouped.
           groupby_sum (t\<lparr>rows := filter (\<lambda>r. (py_eq (r ''variable_description'') tp
                  \<and> py_eq (r ''activity_type'') ac
                  \<and> cell_le s (r dc) = Inr True \<and> cell_le (r dc) e = Inr True)
                  \<and> (geo \<noteq> Str ''all_values'' \<longrightarrow> py_eq (r gc) geo)) (rows t)\<rparr>)
             (groups_key dc) = Inr grouped
           \<and> cost_per_act grouped = Inr (fig_data fig)"
    unfolding d by blast
  show "fig_data cpm = fig_data fig" by (simp add: d)
qed

lemma get_spend_vs_activity_plot_Some:
  assumes "get_spend_vs_activity_plot t v a dr dcl gcl gv = (out, Inr (Some fig))"
  shows "\<exists>dc s e. dcl = Name dc \<and> date_bounds t dr dcl = Inr (s, e)
           \<and> cost_per_act (t\<lparr>rows := filter (\<lambda>r.
                  str_lower (r ''variable_description'') = Str (lower v)
                  \<and> str_lower (r ''activity_type'') = Str (lower a)
                  \<and> cell_le s (r dc) = Inr True \<and> cell_le (r dc) e = Inr True
                  \<and> (\<forall>x gc. gv = Some x \<and> gcl = Name gc \<longrightarrow> py_eq (r gc) x)) (rows t)\<rparr>)
               = Inr (fig_data fig)"
    and "out = []"
proof -
  from assms obtain s e temp where c: "sva_checks t v a dr dcl = (out, Inr (Some (s, e)))"
    and f: "sva_filter_lower t v a s e dcl gcl gv = Inr temp"
    and p: "sva_plot temp dcl = Inr (Some fig)"
    by (auto simp: get_spend_vs_activity_plot_def ebind_Inr
        split: prod.splits sum.splits option.splits)
  from p obtain temp' where cp: "cost_per_act temp = Inr temp'"
    and g: "go_traces temp' dcl [''Spend'', ''Activity'', ''cost_per_act''] = Inr fig"
    by (auto simp: sva_plot_def ebind_Inr)
  from go_traces_Inr[OF g] obtain dc where d: "fig_data fig = temp'" and dc: "dcl = Name dc"
    by blast
  note s = sva_checks_Some[OF c]
  show "out = []" by (rule s(1))
  from cp show "\<exists>dc s e. dcl = Name dc \<and> date_bounds t dr dcl = Inr (s, e)
           \<and> cost_per_act (t\<lparr>rows := filter (\<lambda>r.
                  str_lower (r ''variable_description'') = Str (lower v)
                  \<and> str_lower (r ''activity_type'') = Str (lower a)
                  \<and> cell_le s (r dc) = Inr True \<and> cell_le (r dc) e = Inr True
                  \<and> (\<forall>x gc. gv = Some x \<and> gcl = Name gc \<longrightarrow> py_eq (r gc) x)) (rows t)\<rparr>)
               = Inr (fig_data fig)"
    unfolding d sva_filter_lower_Inr(1)[OF f[unfolded dc]] using dc s(2) by blast
qed

lemma qs_update_graph1_Inr:
  "qs_update_graph1 t tp = Inr fig \<Longrightarrow>
     fig_data fig = t\<lparr>rows := filter (\<lambda>r. py_eq (r ''variable_description'') tp) (rows t)\<rparr>"
  by (auto simp: qs_update_graph1_def ebind_Inr qs_filter_eq simp del: px_chart.simps
      dest: px_chart_Inr split: if_splits)

lemma qs_update_graph1_geo_Inr:
  assumes "qs_update_graph1_geo t gc tp geo = Inr fig"
  shows "groupby_sum (t\<lparr>rows := filter (\<lambda>r. py_eq (r ''variable_description'') tp
                  \<and> (geo \<noteq> Str ''all_values'' \<longrightarrow> py_eq (r gc) geo)) (rows t)\<rparr>)
           [''YEAR_QTR''] = Inr (fig_data fig)"
proof -
  from assms obtain gr where
    g: "(if geo = Str ''all_values''
         then ebind (qs_filter t tp) (\<lambda>temp. groupby_sum temp [''YEAR_QTR''])
         else ebind (qs_filter t tp) (\<lambda>temp. ebind (group_filter temp (Name gc) geo)
                (\<lambda>temp. groupby_sum temp [''YEAR_QTR'']))) = Inr gr"
    and p: "px_chart LineChart gr (Name ''YEAR_QTR'') [''value''] = Inr fig"
    by (auto simp: qs_update_graph1_geo_def ebind_Inr)
  from px_chart_Inr[OF p] g show ?thesis
    by (auto simp: ebind_Inr qs_filter_eq group_filter_eq split: if_splits)
qed

lemma get_quarterly_spends_plot_Some:
  assumes "get_quarterly_spends_plot t gcl v gv = (out, Inr (Some fig))"
  shows "groupby_sum (t\<lparr>rows := filter (\<lambda>r. r ''variable_description'' = Str v
                  \<and> (\<forall>x gc. gv = Some x \<and> gcl = Name gc \<longrightarrow> py_eq (r gc) x)) (rows t)\<rparr>)
           [''YEAR_QTR''] = Inr (fig_data fig)"
    and "out = []"
    and "gv \<noteq> None \<Longrightarrow> \<exists>gc. gcl = Name gc \<and> gc \<in> set (columns t)"
proof -
  from assms have c: "qs_checks t v = (out, Inr True)"
    by (auto simp: get_quarterly_spends_plot_def split: prod.splits sum.splits bool.splits)
  then show "out = []" by (auto simp: qs_checks_def split: sum.splits bool.splits)
  from assms c obtain gr where
    g: "(case gv of
           None \<Rightarrow> ebind (qs_filter t (Str v)) (\<lambda>temp. groupby_sum temp [''YEAR_QTR''])
         | Some x \<Rightarrow> ebind (qs_filter t (Str v)) (\<lambda>temp. ebind (group_filter temp gcl x)
                (\<lambda>temp. groupby_sum temp [''YEAR_QTR'']))) = Inr gr"
    and p: "px_chart LineChart gr (Name ''YEAR_QTR'') [''value''] = Inr fig"
    by (auto simp: get_quarterly_spends_plot_def ebind_Inr)
  note d = px_chart_Inr[OF p]
  show "groupby_sum (t\<lparr>rows := filter (\<lambda>r. r ''variable_description'' = Str v
                  \<and> (\<forall>x gc. gv = Some x \<and> gcl = Name gc \<longrightarrow> py_eq (r gc) x)) (rows t)\<rparr>)
           [''YEAR_QTR''] = Inr (fig_data fig)"
  proof (cases gv)
    case None
    with g d show ?thesis
      by (auto simp: ebind_Inr qs_filter_eq py_eq_Str split: if_splits)
  next
    case (Some x)
    with g d show ?thesis
      by (cases gcl)
        (auto simp: ebind_Inr qs_filter_eq group_filter_eq group_filter_no_column py_eq_Str
          split: if_splits)
  qed
  show "gv \<noteq> None \<Longrightarrow> \<exists>gc. gcl = Name gc \<and> gc \<in> set (columns t)"
    using g by (cases gv; cases gcl)
      (auto simp: ebind_Inr qs_filter_eq group_filter_eq group_filter_no_column
        split: if_splits)
qed

lemma update_figure_Inr:
  assumes "update_figure data dc gc sel = Inr fig"
  shows "sel = Str ''select_all'' \<Longrightarrow> groupby_sum data [dc] = Inr (fig_data fig)"
    and "sel \<noteq> Str ''select_all'' \<Longrightarrow>
           fig_data fig = data\<lparr>rows := filter (\<lambda>r. py_eq (r gc) sel) (rows data)\<rparr>"
  using assms
  by (auto simp: update_figure_def ebind_Inr group_filter_eq simp del: px_chart.simps
      dest: px_chart_Inr split: if_splits)

lemma get_actual_vs_predicted_plot_Inr:
  assumes "get_actual_vs_predicted_plot t dc dv il gcl gv = (out, Inr fig)"
  shows "\<exists>data. avp_data t il = Inr data
           \<and> (gv = None \<or> gv = Some (Str ''all'')
                \<longrightarrow> out = [] \<and> groupby_sum data [dc] = Inr (fig_data fig))
           \<and> (\<forall>x. gv = Some x \<and> x \<noteq> Str ''all''
                \<longrightarrow> (\<exists>gc. gcl = Name gc \<and> gc \<in> set (columns data)
                      \<and> fig_data fig
                          = data\<lparr>rows := filter (\<lambda>r. py_eq (r gc) x) (rows data)\<rparr>
                      \<and> out = [Table (fig_data fig)]))"
proof -
  from assms obtain data where d: "avp_data t il = Inr data"
    by (auto simp: get_actual_vs_predicted_plot_def split: sum.splits)
  show ?thesis
  proof (cases "gv = None \<or> gv = Some (Str ''all'')")
    case True
    with assms d show ?thesis
      by (auto simp: get_actual_vs_predicted_plot_def ebind_Inr simp del: px_chart.simps
          dest: px_chart_Inr)
  next
    case False
    then obtain x where x: "gv = Some x" "x \<noteq> Str ''all''" by (cases gv) auto
    with assms d obtain f where f: "group_filter data gcl x = Inr f"
      and o: "out = [Table f]"
      and p: "px_chart LineChart f (Name dc) [''actuals'', ''preds''] = Inr fig"
      by (auto simp: get_actual_vs_predicted_plot_def split: sum.splits)
    from f obtain gc where gc: "gcl = Name gc" "gc \<in> set (columns data)"
      and ff: "f = data\<lparr>rows := filter (\<lambda>r. py_eq (r gc) x) (rows data)\<rparr>"
      by (cases gcl) (auto simp: group_filter_eq group_filter_no_column split: if_splits)
    from px_chart_Inr[OF p] d x gc ff o show ?thesis by auto
  qed
qed

subsection \<open>Commands on the heap\<close>

lemma ebind_simps: "ebind (Inl e) f = Inl e" "ebind (Inr x) f = f x"
  by (simp_all add: ebind_def)

lemma ebind_assoc: "ebind (ebind m f) g = ebind m (\<lambda>x. ebind (f x) g)"
  by (cases m) (simp_all add: ebind_simps)

lemma cost_per_act_two_steps:
  "cost_per_act t =
     ebind (ebind (ebind (df_getitem t (Name ''Spend'')) (\<lambda>spend.
                   ebind (df_getitem t (Name ''Activity'')) (\<lambda>activity.
                   series_div spend activity)))
              (df_setitem t ''cost_per_act'')) (\<lambda>t1.
     ebind (ebind (df_getitem t1 (Name ''cost_per_act'')) (\<lambda>c.
                   Inr (map (\<lambda>v. replace_inf0 (fillna0 v)) c)))
       (df_setitem t1 ''cost_per_act''))"
  by (simp add: cost_per_act_def ebind_assoc ebind_simps)

lemma second_step_succeeds:
  assumes "df_setitem t c q = Inr t1"
  shows "\<exists>t2. ebind (ebind (df_getitem t1 (Name c)) (\<lambda>x. Inr (map g x)))
                 (df_setitem t1 c) = Inr t2"
proof -
  from assms have "c \<in> set (columns t1)" by (auto simp: df_setitem_def split: if_splits)
  then show ?thesis by (simp add: ebind_simps df_setitem_def column_values_def)
qed

lemma o_cost_per_act_run:
  "o_cost_per_act temp h =
     (case cost_per_act (objs h temp) of
        Inl e \<Rightarrow> (Inl e, h)
      | Inr t' \<Rightarrow> (Inr (), h\<lparr>objs := (objs h)(temp := t')\<rparr>))"
proof -
  let ?t = "objs h temp"
  let ?E1 = "ebind (ebind (df_getitem ?t (Name ''Spend'')) (\<lambda>spend.
                   ebind (df_getitem ?t (Name ''Activity'')) (\<lambda>activity.
                   series_div spend activity))) (df_setitem ?t ''cost_per_act'')"
  show ?thesis
  proof (cases ?E1)
    case (Inl e)
    have "cost_per_act ?t = Inl e"
      unfolding cost_per_act_two_steps Inl by (simp add: ebind_simps)
    moreover have "o_cost_per_act temp h = (Inl e, h)"
      unfolding o_cost_per_act_def cbind_def cset_def Inl by simp
    ultimately show ?thesis by simp
  next
    case (Inr t1)
    then obtain q where "df_setitem ?t ''cost_per_act'' q = Inr t1"
      by (auto simp: ebind_Inr)
    from second_step_succeeds[OF this] obtain t2 where
      t2: "ebind (ebind (df_getitem t1 (Name ''cost_per_act''))
              (\<lambda>x. Inr (map (\<lambda>v. replace_inf0 (fillna0 v)) x)))
             (df_setitem t1 ''cost_per_act'') = Inr t2" by blast
    have "cost_per_act ?t = Inr t2"
      unfolding cost_per_act_two_steps Inr by (simp only: ebind_simps t2)
    moreover have "o_cost_per_act temp h = (Inr (), h\<lparr>objs := (objs h)(temp := t2)\<rparr>)"
      unfolding o_cost_per_act_def cbind_def cset_def Inr
      by (simp add: t2 del: df_getitem.simps)
    ultimately show ?thesis by simp
  qed
qed


lemmas run_defs = cbind_def cread_def cnew_def o_cost_per_act_run ebind_def

lemma o_sva_update_graph1_result:
  "fst (o_sva_update_graph1 data dc tp ac pt s e h)
     = sva_update_graph1 (objs h data) dc tp ac pt s e"
  by (simp add: o_sva_update_graph1_def sva_update_graph1_def run_defs split: sum.splits)

lemma o_sva_update_graph1_old:
  "b < next_ref h \<Longrightarrow> objs (snd (o_sva_update_graph1 data dc tp ac pt s e h)) b = objs h b"
  by (simp add: o_sva_update_graph1_def run_defs split: sum.splits)


lemma o_sva_update_graph1_geo_result:
  "fst (o_sva_update_graph1_geo data dc gc tp ac pt geo s e h)
     = sva_update_graph1_geo (objs h data) dc gc tp ac pt geo s e"
  by (simp add: o_sva_update_graph1_geo_def sva_update_graph1_geo_def run_defs
      split: sum.splits)

lemma o_sva_update_graph1_geo_old:
  "b < next_ref h \<Longrightarrow>
     objs (snd (o_sva_update_graph1_geo data dc gc tp ac pt geo s e h)) b = objs h b"
  by (simp add: o_sva_update_graph1_geo_def run_defs split: sum.splits)

lemma o_get_spend_vs_activity_plot_result:
  "fst (o_get_spend_vs_activity_plot data v a dr dcl gcl gv h)
     = get_spend_vs_activity_plot (objs h data) v a dr dcl gcl gv"
  by (simp add: o_get_spend_vs_activity_plot_def get_spend_vs_activity_plot_def sva_plot_def
      run_defs split: sum.splits prod.splits option.splits)

lemma o_get_spend_vs_activity_plot_old:
  "b < next_ref h \<Longrightarrow>
     objs (snd (o_get_spend_vs_activity_plot data v a dr dcl gcl gv h)) b = objs h b"
  by (simp add: o_get_spend_vs_activity_plot_def run_defs
      split: sum.splits prod.splits option.splits)

lemma o_qs_update_graph1_result:
  "fst (o_qs_update_graph1 data tp h) = qs_update_graph1 (objs h data) tp"
  by (simp add: o_qs_update_graph1_def qs_update_graph1_def run_defs split: sum.splits)

lemma o_qs_update_graph1_old:
  "b < next_ref h \<Longrightarrow> objs (snd (o_qs_update_graph1 data tp h)) b = objs h b"
  by (simp add: o_qs_update_graph1_def run_defs split: sum.splits)

lemma o_qs_update_graph1_geo_result:
  "fst (o_qs_update_graph1_geo data gc tp geo h) = qs_update_graph1_geo (objs h data) gc tp geo"
  by (simp add: o_qs_update_graph1_geo_def qs_update_graph1_geo_def run_defs
      split: sum.splits)

lemma o_qs_update_graph1_geo_old:
  "b < next_ref h \<Longrightarrow> objs (snd (o_qs_update_graph1_geo data gc tp geo h)) b = objs h b"
  by (simp add: o_qs_update_graph1_geo_def run_defs split: sum.splits)

lemma o_get_quarterly_spends_plot_result:
  "fst (o_get_quarterly_spends_plot data gcl v gv h)
     = get_quarterly_spends_plot (objs h data) gcl v gv"
  by (auto simp: o_get_quarterly_spends_plot_def get_quarterly_spends_plot_def run_defs
      split: sum.splits prod.splits option.splits bool.splits)

lemma o_get_quarterly_spends_plot_old:
  "b < next_ref h \<Longrightarrow> objs (snd (o_get_quarterly_spends_plot data gcl v gv h)) b = objs h b"
  by (auto simp: o_get_quarterly_spends_plot_def run_defs
      split: sum.splits prod.splits option.splits bool.splits)

lemma o_update_figure_result:
  "fst (o_update_figure data dc gc sel h) = update_figure (objs h data) dc gc sel"
  by (simp add: o_update_figure_def update_figure_def run_defs split: sum.splits)

lemma o_update_figure_old:
  "b < next_ref h \<Longrightarrow> objs (snd (o_update_figure data dc gc sel h)) b = objs h b"
  by (simp add: o_update_figure_def run_defs split: sum.splits)


lemma avp_data_two_steps:
  "avp_data t True =
     ebind (ebind (ebind (df_getitem t (Name ''actuals'')) np_exp)
              (df_setitem t ''actuals'')) (\<lambda>d.
     ebind (ebind (df_getitem d (Name ''preds'')) np_exp) (df_setitem d ''preds''))"
  by (simp add: avp_data_def ebind_assoc Let_def)

lemma o_avp_data_run:
  assumes "o_avp_data a il h = (r, h')"
  shows "r = map_sum id (\<lambda>d. next_ref h) (avp_data (objs h a) il)"
    and "avp_data (objs h a) il = Inr d \<Longrightarrow> objs h' (next_ref h) = d"
    and "b < next_ref h \<Longrightarrow> objs h' b = objs h b"
proof -
  let ?t = "objs h a"
  let ?h1 = "h\<lparr>objs := (objs h)(next_ref h := ?t), next_ref := Suc (next_ref h)\<rparr>"
  let ?E1 = "ebind (ebind (df_getitem ?t (Name ''actuals'')) np_exp) (df_setitem ?t ''actuals'')"
  have all: "r = map_sum id (\<lambda>d. next_ref h) (avp_data ?t il)
      \<and> (\<forall>d. avp_data ?t il = Inr d \<longrightarrow> objs h' (next_ref h) = d)
      \<and> (\<forall>b<next_ref h. objs h' b = objs h b)"
  proof (cases il)
    case False
    with assms show ?thesis
      by (auto simp: o_avp_data_def cbind_def cnew_def avp_data_plain)
  next
    case True
    show ?thesis
    proof (cases ?E1)
      case (Inl e)
      have "avp_data ?t True = Inl e"
        unfolding avp_data_two_steps Inl by (simp only: ebind_simps)
      then have "avp_data ?t il = Inl e" using True by simp
      moreover have "o_avp_data a il h = (Inl e, ?h1)"
        unfolding o_avp_data_def cbind_def cnew_def cset_def
        using Inl True by (simp del: df_getitem.simps)
      ultimately show ?thesis using assms by auto
    next
      case d1: (Inr d1)
      let ?h2 = "?h1\<lparr>objs := (objs ?h1)(next_ref h := d1)\<rparr>"
      let ?E2 = "ebind (ebind (df_getitem d1 (Name ''preds'')) np_exp) (df_setitem d1 ''preds'')"
      have "avp_data ?t True = ?E2"
        unfolding avp_data_two_steps d1 by (simp only: ebind_simps)
      then have p: "avp_data ?t il = ?E2" using True by simp
      show ?thesis
      proof (cases ?E2)
        case (Inl e)
        have "o_avp_data a il h = (Inl e, ?h2)"
          unfolding o_avp_data_def cbind_def cnew_def cset_def
          using d1 Inl True by (simp del: df_getitem.simps)
        with p Inl assms show ?thesis by auto
      next
        case (Inr d2)
        have "o_avp_data a il h
            = (Inr (next_ref h), ?h2\<lparr>objs := (objs ?h2)(next_ref h := d2)\<rparr>)"
          unfolding o_avp_data_def cbind_def cnew_def cset_def
          using d1 Inr True by (simp del: df_getitem.simps)
        with p Inr assms show ?thesis by auto
      qed
    qed
  qed
  from all show "r = map_sum id (\<lambda>d. next_ref h) (avp_data (objs h a) il)" by blast
  from all show "avp_data (objs h a) il = Inr d \<Longrightarrow> objs h' (next_ref h) = d" by blast
  from all show "b < next_ref h \<Longrightarrow> objs h' b = objs h b" by blast
qed

lemma o_get_actual_vs_predicted_plot_result:
  "fst (o_get_actual_vs_predicted_plot a dc dv il gcl gv h)
     = get_actual_vs_predicted_plot (objs h a) dc dv il gcl gv"
proof -
  obtain r h1 where o: "o_avp_data a il h = (r, h1)" by (cases "o_avp_data a il h")
  note run = o_avp_data_run[OF o]
  show ?thesis
  proof (cases "avp_data (objs h a) il")
    case (Inl e)
    with run(1) o show ?thesis
      by (simp add: o_get_actual_vs_predicted_plot_def get_actual_vs_predicted_plot_def)
  next
    case (Inr d)
    with run(1) have r: "r = Inr (next_ref h)" by simp
    from run(2)[OF Inr] have d: "objs h1 (next_ref h) = d" .
    show ?thesis
      unfolding o_get_actual_vs_predicted_plot_def get_actual_vs_predicted_plot_def o r Inr
      by (simp add: cbind_def cnew_def cread_def d ebind_def split: sum.splits)
  qed
qed

lemma o_get_actual_vs_predicted_plot_old:
  assumes "b < next_ref h"
  shows "objs (snd (o_get_actual_vs_predicted_plot a dc dv il gcl gv h)) b = objs h b"
proof -
  obtain r h1 where o: "o_avp_data a il h = (r, h1)" by (cases "o_avp_data a il h")
  note run = o_avp_data_run[OF o]
  have k: "objs h1 b = objs h b" using run(3) assms by blast
  have n: "next_ref h \<le> next_ref h1"
    using o by (auto simp: o_avp_data_def cbind_def cnew_def cset_def
        split: sum.splits if_splits prod.splits)
  then have b: "b < next_ref h1" using assms by simp
  show ?thesis
    unfolding o_get_actual_vs_predicted_plot_def o
    using b k by (auto simp: cbind_def cnew_def cread_def split: sum.splits)
qed

section \<open>The derived metric is a finite quotient or zero\<close>

text \<open>
  Claim C1 says that \<open>cost_per_act\<close> is Spend divided by Activity whenever Activity is not
  zero and both operands are present. An infinite spend is present, and so are two
  finite numbers whose quotient is beyond the largest float: in both rows of the table
  \<open>extremes\<close> the quotient that the first statement of the derived metric stores is an
  infinity, and the second statement replaces it by zero.
\<close>

theorem cost_per_act_counterexample:
  "column_values extremes ''Spend'' = [Num PInf, Num (Fin (2 ^ 1000))]
   \<and> column_values extremes ''Activity'' = [Num (Fin 2), Num (Fin (1 / 2 ^ 1000))]
   \<and> series_div (column_values extremes ''Spend'') (column_values extremes ''Activity'')
       = Inr [Num PInf, Num PInf]
   \<and> column_values (projr (cost_per_act extremes)) ''cost_per_act''
       = [Num (Fin 0), Num (Fin 0)]"
  by (simp add: cost_per_act_def ebind_def column_values_def series_div_def df_setitem_def
      extremes_def row_of_def round64_overflow)

text \<open>
  Claim C1, amended. In every row of the working table that the two statements of the
  derived metric leave, \<open>cost_per_act\<close> is the quotient of Spend by Activity, rounded as
  floats are, when both are finite numbers, Activity is not zero and the quotient is
  not beyond the largest float; it is exactly zero when Activity is zero, when either
  of the two is missing or infinite, and when the quotient of two finite numbers is
  beyond the largest float; and it is always a finite number, never an infinity and
  never a missing value. The four parts of the statement below: the stored number is
  the rounded quotient where that is finite, and zero where it is not; up to \<open>2 ^ 1023\<close>
  the rounded quotient is finite and within half a unit in the last place of the real
  quotient; from \<open>2 ^ 1024\<close> on it is an infinity, and zero is stored; zero is stored for
  a zero activity and for a missing or infinite operand. (Spend and Activity are the
  row's own: the step changes no other column. By \<open>sva_update_graph1_Inr\<close>,
  \<open>sva_update_graph1_geo_Inr\<close> and \<open>get_spend_vs_activity_plot_Some\<close> the table of every
  figure that the three spend-versus-activity functions return is a table that this
  step has left.)
\<close>

theorem cost_per_act_policy:
  assumes "cost_per_act temp = Inr temp'" and "r \<in> set (rows temp')"
  shows "(\<forall>s a. r ''Spend'' = Num (Fin s) \<and> r ''Activity'' = Num (Fin a) \<and> a \<noteq> 0
            \<longrightarrow> r ''cost_per_act''
                = (case round64 (s / a) of Fin q \<Rightarrow> Num (Fin q) | PInf \<Rightarrow> Num (Fin 0)
                   | NInf \<Rightarrow> Num (Fin 0) | NaN \<Rightarrow> Num (Fin 0)))
       \<and> (\<forall>s a. r ''Spend'' = Num (Fin s) \<and> r ''Activity'' = Num (Fin a) \<and> a \<noteq> 0
              \<and> \<bar>s / a\<bar> \<le> 2 ^ 1023
            \<longrightarrow> (\<exists>q. r ''cost_per_act'' = Num (Fin q)
                   \<and> \<bar>q - s / a\<bar> \<le> max (\<bar>s / a\<bar> / 2 ^ 53) (1 / 2 ^ 1075)))
       \<and> (\<forall>s a. r ''Spend'' = Num (Fin s) \<and> r ''Activity'' = Num (Fin a) \<and> a \<noteq> 0
              \<and> 2 ^ 1024 \<le> \<bar>s / a\<bar>
            \<longrightarrow> r ''cost_per_act'' = Num (Fin 0))
       \<and> (r ''Activity'' = Num (Fin 0) \<or> r ''Spend'' = Num NaN \<or> r ''Activity'' = Num NaN
            \<or> r ''Spend'' = Num PInf \<or> r ''Spend'' = Num NInf
            \<or> r ''Activity'' = Num PInf \<or> r ''Activity'' = Num NInf
            \<longrightarrow> r ''cost_per_act'' = Num (Fin 0))
       \<and> (\<exists>x. r ''cost_per_act'' = Num (Fin x))"
proof -
  from cost_per_act_rows(1)[OF assms(1)] assms(2) obtain r0 where
    r0: "r0 \<in> set (rows temp)" and
    r: "r = r0(''cost_per_act'' :=
          replace_inf0 (fillna0 (projr (cell_div (r0 ''Spend'') (r0 ''Activity'')))))"
    by auto
  from cost_per_act_rows(2)[OF assms(1)] r0 obtain a b where
    ab: "r0 ''Spend'' = Num a" "r0 ''Activity'' = Num b" by blast
  have sp: "r ''Spend'' = Num a" and ac: "r ''Activity'' = Num b"
    and c: "r ''cost_per_act'' = replace_inf0 (fillna0 (Num (fl_div a b)))"
    using ab by (simp_all add: r)
  have 1: "r ''cost_per_act''
        = (case round64 (s / y) of Fin q \<Rightarrow> Num (Fin q) | PInf \<Rightarrow> Num (Fin 0)
           | NInf \<Rightarrow> Num (Fin 0) | NaN \<Rightarrow> Num (Fin 0))"
    if "r ''Spend'' = Num (Fin s)" "r ''Activity'' = Num (Fin y)" "y \<noteq> 0" for s y
    using that ratio_finite[of y s] by (simp add: sp ac c)
  have 2: "\<exists>q. r ''cost_per_act'' = Num (Fin q)
          \<and> \<bar>q - s / y\<bar> \<le> max (\<bar>s / y\<bar> / 2 ^ 53) (1 / 2 ^ 1075)"
    if "r ''Spend'' = Num (Fin s)" "r ''Activity'' = Num (Fin y)" "y \<noteq> 0"
      "\<bar>s / y\<bar> \<le> 2 ^ 1023" for s y
  proof -
    from round64_finite[OF that(4)] obtain q where
      q: "round64 (s / y) = Fin q" "\<bar>q - s / y\<bar> \<le> max (\<bar>s / y\<bar> / 2 ^ 53) (1 / 2 ^ 1075)"
      by blast
    from 1[OF that(1-3)] q(1) have "r ''cost_per_act'' = Num (Fin q)" by simp
    with q(2) show ?thesis by blast
  qed
  have 3: "r ''cost_per_act'' = Num (Fin 0)"
    if "r ''Spend'' = Num (Fin s)" "r ''Activity'' = Num (Fin y)" "y \<noteq> 0"
      "2 ^ 1024 \<le> \<bar>s / y\<bar>" for s y
    using 1[OF that(1-3)] round64_overflow[OF that(4)] by (simp split: if_splits)
  have 4: "r ''cost_per_act'' = Num (Fin 0)"
    if "r ''Activity'' = Num (Fin 0) \<or> r ''Spend'' = Num NaN \<or> r ''Activity'' = Num NaN
        \<or> r ''Spend'' = Num PInf \<or> r ''Spend'' = Num NInf
        \<or> r ''Activity'' = Num PInf \<or> r ''Activity'' = Num NInf"
    using that ratio_zero[of b a] by (auto simp: sp ac c)
  have 5: "\<exists>x. r ''cost_per_act'' = Num (Fin x)"
    using ratio_never_special[of a b] by (simp add: c)
  from 1 2 3 4 5 show ?thesis by blast
qed

text \<open>
  The scenario of the specification: spends 100, 0, 50 over activities 10, 0, 0 give
  the costs 10, 0, 0. And the two rows of \<open>extremes\<close> give the cost 0.
\<close>

theorem cost_per_act_policy_witness:
  "cost_per_act scenario = Inr (projr (cost_per_act scenario))
   \<and> (rows (projr (cost_per_act scenario)) ! 0) ''cost_per_act'' = Num (Fin 10)
   \<and> (rows (projr (cost_per_act scenario)) ! 1) ''cost_per_act'' = Num (Fin 0)
   \<and> (rows (projr (cost_per_act scenario)) ! 2) ''cost_per_act'' = Num (Fin 0)
   \<and> cost_per_act extremes = Inr (projr (cost_per_act extremes))
   \<and> (rows (projr (cost_per_act extremes)) ! 0) ''cost_per_act'' = Num (Fin 0)
   \<and> (rows (projr (cost_per_act extremes)) ! 1) ''cost_per_act'' = Num (Fin 0)"
proof -
  let ?t = "projr (cost_per_act scenario)"
  have h: "cost_per_act scenario = Inr ?t"
    by (simp add: cost_per_act_def ebind_def column_values_def series_div_def df_setitem_def
        scenario_def row_of_def)
  have len: "length (rows ?t) = 3"
    by (simp add: cost_per_act_def ebind_def column_values_def series_div_def df_setitem_def
        scenario_def row_of_def)
  have m: "rows ?t ! 0 \<in> set (rows ?t)" "rows ?t ! 1 \<in> set (rows ?t)"
    "rows ?t ! 2 \<in> set (rows ?t)"
    using len by simp_all
  have v0: "(rows ?t ! 0) ''Spend'' = Num (Fin 100)" "(rows ?t ! 0) ''Activity'' = Num (Fin 10)"
    and v1: "(rows ?t ! 1) ''Activity'' = Num (Fin 0)"
    and v2: "(rows ?t ! 2) ''Activity'' = Num (Fin 0)"
    by (simp_all add: cost_per_act_def ebind_def column_values_def series_div_def
        df_setitem_def scenario_def row_of_def)
  let ?u = "projr (cost_per_act extremes)"
  have hu: "cost_per_act extremes = Inr ?u"
    by (simp add: cost_per_act_def ebind_def column_values_def series_div_def df_setitem_def
        extremes_def row_of_def)
  have lenu: "length (rows ?u) = 2"
    by (simp add: cost_per_act_def ebind_def column_values_def series_div_def df_setitem_def
        extremes_def row_of_def)
  have mu: "rows ?u ! 0 \<in> set (rows ?u)" "rows ?u ! 1 \<in> set (rows ?u)"
    using lenu by simp_all
  have u0: "(rows ?u ! 0) ''Spend'' = Num PInf"
    and u1: "(rows ?u ! 1) ''Spend'' = Num (Fin (2 ^ 1000))"
      "(rows ?u ! 1) ''Activity'' = Num (Fin (1 / 2 ^ 1000))"
    by (simp_all add: cost_per_act_def ebind_def column_values_def series_div_def
        df_setitem_def extremes_def row_of_def)
  have big: "(2::real) ^ 1024 \<le> \<bar>2 ^ 1000 / (1 / 2 ^ 1000)\<bar>" by simp
  have nz: "(1 / 2 ^ 1000 :: real) \<noteq> 0" by simp
  from cost_per_act_policy[OF h m(1)] v0
  have "(rows ?t ! 0) ''cost_per_act'' = Num (Fin 10)" by (simp add: round64_numeral)
  moreover from cost_per_act_policy[OF h m(2)] v1
  have "(rows ?t ! 1) ''cost_per_act'' = Num (Fin 0)" by simp
  moreover from cost_per_act_policy[OF h m(3)] v2
  have "(rows ?t ! 2) ''cost_per_act'' = Num (Fin 0)" by simp
  moreover from cost_per_act_policy[OF hu mu(1)] u0
  have "(rows ?u ! 0) ''cost_per_act'' = Num (Fin 0)" by simp
  moreover from cost_per_act_policy[OF hu mu(2)] u1 big nz
  have "(rows ?u ! 1) ''cost_per_act'' = Num (Fin 0)" by blast
  ultimately show ?thesis using h hu by simp
qed

section \<open>An invalid group column in the static actual-versus-predicted plot\<close>

text \<open>
  Claim C2 says that a group column that is not in the table is reported and that the
  function then returns without a chart and without an exception. The code prints the
  message and then raises: the variable \<^verbatim>\<open>filtered_df\<close> was never bound. Every such
  call ends in an exception; when the preparation of the data succeeds, the message is
  printed first and the exception is \<^verbatim>\<open>UnboundLocalError\<close>.
\<close>

theorem avp_invalid_group_column:
  assumes "g \<notin> set (columns t)" and "gv \<noteq> Str ''all''"
  shows "(\<exists>e. snd (get_actual_vs_predicted_plot t dc dv il (Name g) (Some gv)) = Inl e)
       \<and> (\<forall>data. avp_data t il = Inr data \<longrightarrow>
            get_actual_vs_predicted_plot t dc dv il (Name g) (Some gv)
              = ([Line ''Please enter a valid group column name''], Inl UnboundLocalError))"
proof (cases "avp_data t il")
  case (Inl e)
  then show ?thesis by (simp add: get_actual_vs_predicted_plot_def)
next
  case (Inr data)
  with assms(1) have "g \<notin> set (columns data)" by (simp add: avp_data_columns)
  then have "group_filter data (Name g) gv = Inl KeyError" by (simp add: group_filter_eq)
  with Inr assms(2) show ?thesis by (simp add: get_actual_vs_predicted_plot_def)
qed

theorem avp_invalid_group_column_witness:
  "get_actual_vs_predicted_plot avp_table ''date'' ''sales'' False (Name ''state'')
       (Some (Str ''east''))
     = ([Line ''Please enter a valid group column name''], Inl UnboundLocalError)"
proof -
  have c: "''state'' \<notin> set (columns avp_table)" by (simp add: avp_table_def)
  have v: "Str ''east'' \<noteq> Str ''all''" by simp
  have d: "avp_data avp_table False = Inr avp_table" by (simp add: avp_data_def)
  from avp_invalid_group_column[OF c v] d show ?thesis by blast
qed

section \<open>Where the aggregation runs\<close>

text \<open>
  Claim C3 says that the group-and-sum step is skipped whenever a specific group is
  requested. In \<^verbatim>\<open>get_quarterly_spends_plot\<close> it is not: for the region east the filter
  leaves two rows, with the values 10 and 5, and the working table is their sum, one
  row with the value 15.
\<close>

theorem aggregation_skipped_counterexample:
  "cells_of (projr (group_filter (projr (qs_filter quarterly (Str ''TV''))) (Name ''region'')
                      (Str ''east'')))
     = [[Str ''2021Q1'', Str ''TV'', Str ''east'', Num (Fin 10)],
        [Str ''2021Q1'', Str ''TV'', Str ''east'', Num (Fin 5)]]
   \<and> map_sum id (map_option shown)
         (snd (get_quarterly_spends_plot quarterly (Name ''region'') ''TV''
                 (Some (Str ''east''))))
       = Inr (Some [[Str ''2021Q1'', Str ''TVTV'', Str ''easteast'', Num (Fin 15)]])"
  by (simp add: eval_defs fun_defs quarterly_def shown_def)

text \<open>
  Claim C3, amended. When a specific group is requested, the two actual-versus-predicted
  functions skip the aggregation: the working table is the rows of the data with that
  group, as they are. The quarterly functions and the spend-versus-activity callback
  with a group column filter by the group and then group and sum all the same.
\<close>

theorem aggregation_by_function:
  "(\<forall>out fig x. get_actual_vs_predicted_plot t dc dv il gcl (Some x) = (out, Inr fig)
        \<and> x \<noteq> Str ''all''
      \<longrightarrow> (\<exists>data gc. avp_data t il = Inr data \<and> gcl = Name gc
            \<and> fig_data fig = data\<lparr>rows := filter (\<lambda>r. py_eq (r gc) x) (rows data)\<rparr>))
   \<and> (\<forall>fig. update_figure t dc gc sel = Inr fig \<and> sel \<noteq> Str ''select_all''
      \<longrightarrow> fig_data fig = t\<lparr>rows := filter (\<lambda>r. py_eq (r gc) sel) (rows t)\<rparr>)
   \<and> (\<forall>out fig x. get_quarterly_spends_plot t (Name gc) v (Some x) = (out, Inr (Some fig))
      \<longrightarrow> groupby_sum (t\<lparr>rows := filter (\<lambda>r. r ''variable_description'' = Str v
                                          \<and> py_eq (r gc) x) (rows t)\<rparr>) [''YEAR_QTR'']
          = Inr (fig_data fig))
   \<and> (\<forall>fig. qs_update_graph1_geo t gc tp sel = Inr fig \<and> sel \<noteq> Str ''all_values''
      \<longrightarrow> groupby_sum (t\<lparr>rows := filter (\<lambda>r. py_eq (r ''variable_description'') tp
                                          \<and> py_eq (r gc) sel) (rows t)\<rparr>) [''YEAR_QTR'']
          = Inr (fig_data fig))
   \<and> (\<forall>fig cpm. sva_update_graph1_geo t dc gc tp ac pt sel s e = Inr (fig, cpm)
        \<and> sel \<noteq> Str ''all_values''
      \<longrightarrow> (\<exists>grouped.
            groupby_sum (t\<lparr>rows := filter (\<lambda>r. (py_eq (r ''variable_description'') tp
                  \<and> py_eq (r ''activity_type'') ac
                  \<and> cell_le s (r dc) = Inr True \<and> cell_le (r dc) e = Inr True)
                  \<and> py_eq (r gc) sel) (rows t)\<rparr>) (groups_key dc) = Inr grouped
            \<and> cost_per_act grouped = Inr (fig_data fig)))"
proof (intro conjI allI impI; (elim conjE)?)
  fix out fig x
  assume f: "get_actual_vs_predicted_plot t dc dv il gcl (Some x) = (out, Inr fig)"
    and x: "x \<noteq> Str ''all''"
  from get_actual_vs_predicted_plot_Inr[OF f] x
  show "\<exists>data gc. avp_data t il = Inr data \<and> gcl = Name gc
            \<and> fig_data fig = data\<lparr>rows := filter (\<lambda>r. py_eq (r gc) x) (rows data)\<rparr>"
    by blast
next
  fix fig assume "update_figure t dc gc sel = Inr fig" "sel \<noteq> Str ''select_all''"
  then show "fig_data fig = t\<lparr>rows := filter (\<lambda>r. py_eq (r gc) sel) (rows t)\<rparr>"
    by (rule update_figure_Inr(2))
next
  fix out fig x
  assume f: "get_quarterly_spends_plot t (Name gc) v (Some x) = (out, Inr (Some fig))"
  from get_quarterly_spends_plot_Some(1)[OF f]
  show "groupby_sum (t\<lparr>rows := filter (\<lambda>r. r ''variable_description'' = Str v
                                          \<and> py_eq (r gc) x) (rows t)\<rparr>) [''YEAR_QTR'']
          = Inr (fig_data fig)" by simp
next
  fix fig assume f: "qs_update_graph1_geo t gc tp sel = Inr fig"
    and s: "sel \<noteq> Str ''all_values''"
  from qs_update_graph1_geo_Inr[OF f] s
  show "groupby_sum (t\<lparr>rows := filter (\<lambda>r. py_eq (r ''variable_description'') tp
                                          \<and> py_eq (r gc) sel) (rows t)\<rparr>) [''YEAR_QTR'']
          = Inr (fig_data fig)" by simp
next
  fix fig cpm assume f: "sva_update_graph1_geo t dc gc tp ac pt sel s e = Inr (fig, cpm)"
    and s: "sel \<noteq> Str ''all_values''"
  from sva_update_graph1_geo_Inr(1)[OF f] s
  show "\<exists>grouped.
            groupby_sum (t\<lparr>rows := filter (\<lambda>r. (py_eq (r ''variable_description'') tp
                  \<and> py_eq (r ''activity_type'') ac
                  \<and> cell_le s (r dc) = Inr True \<and> cell_le (r dc) e = Inr True)
                  \<and> py_eq (r gc) sel) (rows t)\<rparr>) (groups_key dc) = Inr grouped
            \<and> cost_per_act grouped = Inr (fig_data fig)" by simp
qed


text \<open>
  The region east in the quarterly table is grouped and summed after the filter; the
  region east in the actual-versus-predicted table is filtered and left as it is.
\<close>

theorem aggregation_by_function_witness:
  "get_quarterly_spends_plot quarterly (Name ''region'') ''TV'' (Some (Str ''east''))
     = ([], Inr (Some (the (projr (snd (get_quarterly_spends_plot quarterly (Name ''region'')
                                          ''TV'' (Some (Str ''east''))))))))
   \<and> groupby_sum (quarterly\<lparr>rows := filter (\<lambda>r. r ''variable_description'' = Str ''TV''
                       \<and> py_eq (r ''region'') (Str ''east'')) (rows quarterly)\<rparr>) [''YEAR_QTR'']
       = Inr (fig_data (the (projr (snd (get_quarterly_spends_plot quarterly (Name ''region'')
                                           ''TV'' (Some (Str ''east'')))))))
   \<and> update_figure avp_table ''date'' ''region'' (Str ''east'')
       = Inr (projr (update_figure avp_table ''date'' ''region'' (Str ''east'')))
   \<and> fig_data (projr (update_figure avp_table ''date'' ''region'' (Str ''east'')))
       = avp_table\<lparr>rows := filter (\<lambda>r. py_eq (r ''region'') (Str ''east''))
                                 (rows avp_table)\<rparr>"
proof -
  let ?q = "get_quarterly_spends_plot quarterly (Name ''region'') ''TV'' (Some (Str ''east''))"
  let ?u = "update_figure avp_table ''date'' ''region'' (Str ''east'')"
  have q: "?q = ([], Inr (Some (the (projr (snd ?q)))))"
    by (simp add: eval_defs fun_defs quarterly_def)
  have u: "?u = Inr (projr ?u)"
    by (simp add: eval_defs fun_defs avp_table_def)
  have n: "Str ''east'' \<noteq> Str ''select_all''" by simp
  note a = aggregation_by_function[of avp_table "''date''" _ _ "Name ''region''" "''region''"
      "Str ''east''"]
  note b = aggregation_by_function[of quarterly _ _ _ _ "''region''" _ "''TV''"]
  from b q have "groupby_sum (quarterly\<lparr>rows := filter (\<lambda>r.
        r ''variable_description'' = Str ''TV'' \<and> py_eq (r ''region'') (Str ''east''))
          (rows quarterly)\<rparr>) [''YEAR_QTR'']
       = Inr (fig_data (the (projr (snd ?q))))" by blast
  moreover from a u n have "fig_data (projr ?u)
       = avp_table\<lparr>rows := filter (\<lambda>r. py_eq (r ''region'') (Str ''east''))
                                 (rows avp_table)\<rparr>" by blast
  ultimately show ?thesis using q u by simp
qed

section \<open>A selector that is valid up to case\<close>

text \<open>
  Claim C4 says that a selector that is valid up to case selects the matching rows in
  every filtering function, \<^verbatim>\<open>get_quarterly_spends_plot\<close> included. That function checks
  the selector in lower case and then filters with \<^verbatim>\<open>==\<close>: for the variable \<open>tv\<close> on a
  table of the variable \<open>TV\<close> the check passes, the filter keeps no row, and the chart is
  drawn from an empty table. With \<open>TV\<close> the three rows are summed, and
  \<^verbatim>\<open>get_spend_vs_activity_plot\<close>, which lowers both sides in its filter, selects the
  three rows of the scenario for \<open>tv\<close> and \<open>impressions\<close>.
\<close>

theorem quarterly_selector_case:
  "fst (get_quarterly_spends_plot quarterly (Name ''region'') ''tv'' None) = []
   \<and> map_sum id (map_option shown)
         (snd (get_quarterly_spends_plot quarterly (Name ''region'') ''tv'' None))
       = Inr (Some [])
   \<and> map_sum id (map_option shown)
         (snd (get_quarterly_spends_plot quarterly (Name ''region'') ''TV'' None))
       = Inr (Some [[Str ''2021Q1'', Str ''TVTVTV'', Str ''easteastwest'', Num (Fin 22)]])
   \<and> map_sum id (map_option shown)
         (snd (get_spend_vs_activity_plot scenario ''tv'' ''impressions'' [] (Name ''date'')
                 NoneLabel None))
       = Inr (Some [[Dt 1, Str ''TV'', Str ''Impressions'', Num (Fin 100), Num (Fin 10),
                     Num (Fin 10)],
                    [Dt 2, Str ''TV'', Str ''Impressions'', Num (Fin 0), Num (Fin 0),
                     Num (Fin 0)],
                    [Dt 3, Str ''TV'', Str ''Impressions'', Num (Fin 50), Num (Fin 0),
                     Num (Fin 0)]])"
  by (simp add: eval_defs fun_defs quarterly_def scenario_def shown_def)


section \<open>What the validator reports\<close>

text \<open>
  Claim C5 says that, for every request, the validator reports the rejected value with
  the full list of the column's distinct values. Three requests where it does not. For
  the activity type the list is shorter, the distinct activity types of the rows of the
  requested variable: the table \<open>two_variables\<close> has the activity types Impressions (of
  TV) and Spots (of Radio), and for TV and the unknown activity type Clicks the function
  lists Impressions only. With neither a date range nor a date column, the first
  statement raises \<^verbatim>\<open>KeyError\<close> before the validator runs, and the unknown variable
  Cinema is not reported. And where a variable description is missing in the table,
  lowering the distinct values raises \<^verbatim>\<open>TypeError\<close>, and the unknown variable is not
  reported either.
\<close>

theorem validator_reports_counterexample:
  "get_spend_vs_activity_plot two_variables ''TV'' ''Clicks'' [] (Name ''date'') NoneLabel None
     = ([Line (sva_message ''Clicks''), Item (Str ''Impressions'')], Inr None)
   \<and> unique (column_values two_variables ''activity_type'')
     = [Str ''Impressions'', Str ''Spots'']
   \<and> get_spend_vs_activity_plot two_variables ''Cinema'' ''Clicks'' [] StrType NoneLabel None
     = ([], Inl KeyError)
   \<and> get_spend_vs_activity_plot missing_description ''Cinema'' ''Clicks'' [] (Name ''date'')
        NoneLabel None
     = ([], Inl TypeError)"
  by (simp add: eval_defs fun_defs two_variables_def missing_description_def)


text \<open>
  Claim C5, amended. For every request to \<^verbatim>\<open>get_spend_vs_activity_plot\<close> in which the
  first statement finds the date bounds (a date range of two bounds is given, or none is
  given and \<^verbatim>\<open>date_col\<close> names a column whose smallest and largest value can be taken)
  and the table has the column \<^verbatim>\<open>variable_description\<close>, holding strings only: a
  variable description that is not among the distinct values of its column, compared in
  lower case, is reported with the full list of these values, and the function returns
  without a chart; and an activity type that is not among the activity types of the rows
  of the requested variable (the column \<^verbatim>\<open>activity_type\<close> exists and holds strings in
  these rows), compared in lower case, is reported with the list of the distinct
  activity types of those rows only, and the function returns without a chart. For
  every request to \<^verbatim>\<open>get_quarterly_spends_plot\<close> on a table with the column
  \<^verbatim>\<open>variable_description\<close>, holding strings only: a variable description that is not
  among the distinct values of its column, compared in lower case, is reported with the
  full list of these values, and the function returns without a chart.
\<close>

theorem validator_reports:
  "(\<forall>b us. date_bounds t dr dc = Inr b
       \<and> ''variable_description'' \<in> set (columns t)
       \<and> column_values t ''variable_description'' = map Str us
       \<and> lower v \<notin> lower ` set us
     \<longrightarrow> get_spend_vs_activity_plot t v a dr dc gc gv
         = (Line (sva_message v) # map Item (unique (column_values t ''variable_description'')),
            Inr None))
   \<and> (\<forall>b us acts. date_bounds t dr dc = Inr b
       \<and> ''variable_description'' \<in> set (columns t) \<and> ''activity_type'' \<in> set (columns t)
       \<and> column_values t ''variable_description'' = map Str us
       \<and> lower v \<in> lower ` set us
       \<and> map (\<lambda>r. r ''activity_type'')
            (filter (\<lambda>r. str_lower (r ''variable_description'') = Str (lower v)) (rows t))
           = map Str acts
       \<and> lower a \<notin> lower ` set acts
     \<longrightarrow> get_spend_vs_activity_plot t v a dr dc gc gv
         = (Line (sva_message a) # map Item (unique (map Str acts)), Inr None))
   \<and> (\<forall>us. ''variable_description'' \<in> set (columns t)
       \<and> column_values t ''variable_description'' = map Str us
       \<and> lower v \<notin> lower ` set us
     \<longrightarrow> get_quarterly_spends_plot t gc v gv
         = (Line (qs_message v) # map Item (unique (column_values t ''variable_description'')),
            Inr None))"
proof (intro conjI allI impI; elim conjE)
  fix b us
  assume "date_bounds t dr dc = Inr b" "''variable_description'' \<in> set (columns t)"
    "column_values t ''variable_description'' = map Str us" "lower v \<notin> lower ` set us"
  then show "get_spend_vs_activity_plot t v a dr dc gc gv
         = (Line (sva_message v) # map Item (unique (column_values t ''variable_description'')),
            Inr None)"
    by (simp add: get_spend_vs_activity_plot_def sva_checks_def unique_map_inj inj_def
        lower_in_strings set_unique)
next
  fix b us acts
  assume b: "date_bounds t dr dc = Inr b"
    and c: "''variable_description'' \<in> set (columns t)" "''activity_type'' \<in> set (columns t)"
    and us: "column_values t ''variable_description'' = map Str us"
    and v: "lower v \<in> lower ` set us"
    and acts: "map (\<lambda>r. r ''activity_type'')
            (filter (\<lambda>r. str_lower (r ''variable_description'') = Str (lower v)) (rows t))
           = map Str acts"
    and a: "lower a \<notin> lower ` set acts"
  have m: "df_mask t (series_eq (map str_lower (column_values t ''variable_description''))
              (Str (lower v)))
      = t\<lparr>rows := filter (\<lambda>r. str_lower (r ''variable_description'') = Str (lower v))
                     (rows t)\<rparr>"
    by (simp add: column_values_def series_eq_def comp_def py_eq_Str df_mask_filter)
  have g: "df_getitem (df_mask t (series_eq (map str_lower
              (column_values t ''variable_description'')) (Str (lower v))))
             (Name ''activity_type'') = Inr (map Str acts)"
    unfolding m using c(2) by (simp add: column_values_def acts)
  have l1: "lower_in (lower v) (unique (column_values t ''variable_description'')) = Inr True"
    using v by (simp add: us unique_map_inj inj_def lower_in_strings set_unique)
  have l2: "lower_in (lower a) (unique (map Str acts)) = Inr False"
    using a by (simp add: unique_map_inj inj_def lower_in_strings set_unique)
  show "get_spend_vs_activity_plot t v a dr dc gc gv
         = (Line (sva_message a) # map Item (unique (map Str acts)), Inr None)"
    using b c(1) g l1 l2 by (simp add: get_spend_vs_activity_plot_def sva_checks_def)
next
  fix us
  assume "''variable_description'' \<in> set (columns t)"
    "column_values t ''variable_description'' = map Str us" "lower v \<notin> lower ` set us"
  then show "get_quarterly_spends_plot t gc v gv
         = (Line (qs_message v) # map Item (unique (column_values t ''variable_description'')),
            Inr None)"
    by (simp add: get_quarterly_spends_plot_def qs_checks_def unique_map_inj inj_def
        lower_in_strings set_unique)
qed

text \<open>
  An unknown variable in the scenario of the specification, the unknown activity type
  of the table above, and an unknown variable in a table of quarterly spends.
\<close>

theorem validator_reports_witness:
  "get_spend_vs_activity_plot scenario ''Radio'' ''Impressions'' [] (Name ''date'') NoneLabel None
     = ([Line (sva_message ''Radio''), Item (Str ''TV'')], Inr None)
   \<and> get_spend_vs_activity_plot two_variables ''tv'' ''Clicks'' [] (Name ''date'') NoneLabel
        None
     = ([Line (sva_message ''Clicks''), Item (Str ''Impressions'')], Inr None)
   \<and> get_quarterly_spends_plot quarterly (Name ''region'') ''Radio'' None
     = ([Line (qs_message ''Radio''), Item (Str ''TV'')], Inr None)"
proof -
  have b1: "date_bounds scenario [] (Name ''date'') = Inr (Dt 1, Dt 3)"
    by (simp add: eval_defs fun_defs scenario_def)
  have c1: "''variable_description'' \<in> set (columns scenario)" by (simp add: scenario_def)
  have u1: "column_values scenario ''variable_description'' = map Str [''TV'', ''TV'', ''TV'']"
    by (simp add: eval_defs scenario_def)
  have l1: "lower ''Radio'' \<notin> lower ` set [''TV'', ''TV'', ''TV'']"
    by (simp add: lower_def lower_char_def is_upper_def)
  have 1: "get_spend_vs_activity_plot scenario ''Radio'' ''Impressions'' [] (Name ''date'')
      NoneLabel None
     = (Line (sva_message ''Radio'')
          # map Item (unique (column_values scenario ''variable_description'')), Inr None)"
    using validator_reports[of scenario "[]" "Name ''date''" "''Radio''" "''Impressions''"
        NoneLabel None] b1 c1 u1 l1 by blast
  have b2: "date_bounds two_variables [] (Name ''date'') = Inr (Dt 1, Dt 1)"
    by (simp add: eval_defs fun_defs two_variables_def)
  have c2: "''variable_description'' \<in> set (columns two_variables)"
    "''activity_type'' \<in> set (columns two_variables)" by (simp_all add: two_variables_def)
  have u2: "column_values two_variables ''variable_description'' = map Str [''TV'', ''Radio'']"
    by (simp add: eval_defs two_variables_def)
  have l2: "lower ''tv'' \<in> lower ` set [''TV'', ''Radio'']"
    by (simp add: lower_def lower_char_def is_upper_def)
  have a2: "map (\<lambda>r. r ''activity_type'')
        (filter (\<lambda>r. str_lower (r ''variable_description'') = Str (lower ''tv''))
           (rows two_variables)) = map Str [''Impressions'']"
    by (simp add: eval_defs two_variables_def)
  have n2: "lower ''Clicks'' \<notin> lower ` set [''Impressions'']"
    by (simp add: lower_def lower_char_def is_upper_def)
  have 2: "get_spend_vs_activity_plot two_variables ''tv'' ''Clicks'' [] (Name ''date'')
      NoneLabel None
     = (Line (sva_message ''Clicks'') # map Item (unique (map Str [''Impressions''])), Inr None)"
    using validator_reports[of two_variables "[]" "Name ''date''" "''tv''" "''Clicks''"
        NoneLabel None] b2 c2 u2 l2 a2 n2 by blast
  have c3: "''variable_description'' \<in> set (columns quarterly)" by (simp add: quarterly_def)
  have u3: "column_values quarterly ''variable_description'' = map Str [''TV'', ''TV'', ''TV'']"
    by (simp add: eval_defs quarterly_def)
  have 3: "get_quarterly_spends_plot quarterly (Name ''region'') ''Radio'' None
     = (Line (qs_message ''Radio'')
          # map Item (unique (column_values quarterly ''variable_description'')), Inr None)"
    using validator_reports[of quarterly _ _ "''Radio''" _ "Name ''region''" None] c3 u3 l1
    by blast
  from 1 2 3 show ?thesis by (simp add: u1 u3)
qed

section \<open>The sentinel of each function\<close>

text \<open>
  Claim C6 names the sentinels as \<open>all_values\<close> in the dashboards and \<open>all\<close> or
  \<^verbatim>\<open>None\<close> in the static functions. \<^verbatim>\<open>get_quarterly_spends_plot\<close> knows \<^verbatim>\<open>None\<close> only:
  for the group value \<open>all\<close> it keeps the rows whose region is \<open>all\<close>, here none, where
  \<^verbatim>\<open>None\<close> sums the rows of both regions. And the callback of the actual-versus-predicted
  dashboard knows \<open>select_all\<close>, not \<open>all_values\<close>.
\<close>

theorem sentinel_counterexample:
  "map_sum id (map_option shown)
       (snd (get_quarterly_spends_plot quarterly (Name ''region'') ''TV'' (Some (Str ''all''))))
     = Inr (Some [])
   \<and> map_sum id (map_option shown)
         (snd (get_quarterly_spends_plot quarterly (Name ''region'') ''TV'' None))
     = Inr (Some [[Str ''2021Q1'', Str ''TVTVTV'', Str ''easteastwest'', Num (Fin 22)]])
   \<and> map_sum id shown (update_figure avp_table ''date'' ''region'' (Str ''all_values''))
     = Inr []"
  by (simp add: eval_defs fun_defs quarterly_def avp_table_def shown_def)


text \<open>
  Claim C6, amended. The sentinel is \<open>all_values\<close> in the callbacks of the
  spend-versus-activity and quarterly dashboards, \<open>select_all\<close> in the callback of the
  actual-versus-predicted dashboard, \<^verbatim>\<open>None\<close> in \<^verbatim>\<open>get_spend_vs_activity_plot\<close> and
  \<^verbatim>\<open>get_quarterly_spends_plot\<close>, and \<open>all\<close> or \<^verbatim>\<open>None\<close> in
  \<^verbatim>\<open>get_actual_vs_predicted_plot\<close>. With its sentinel a function does not read the
  group column at all, and its working table is built from every row that satisfies
  the remaining predicates.
\<close>

theorem sentinel_skips_group_filter:
  "sva_update_graph1_geo t dc gc tp ac pt (Str ''all_values'') s e
     = sva_update_graph1_geo t dc gc' tp ac pt (Str ''all_values'') s e
   \<and> qs_update_graph1_geo t gc tp (Str ''all_values'')
     = qs_update_graph1_geo t gc' tp (Str ''all_values'')
   \<and> update_figure t dc gc (Str ''select_all'') = update_figure t dc gc' (Str ''select_all'')
   \<and> get_spend_vs_activity_plot t v a dr dcl gcl None
     = get_spend_vs_activity_plot t v a dr dcl gcl' None
   \<and> get_quarterly_spends_plot t gcl v None = get_quarterly_spends_plot t gcl' v None
   \<and> get_actual_vs_predicted_plot t dc dv il gcl None
     = get_actual_vs_predicted_plot t dc dv il gcl' None
   \<and> get_actual_vs_predicted_plot t dc dv il gcl (Some (Str ''all''))
     = get_actual_vs_predicted_plot t dc dv il gcl' None
   \<and> (\<forall>fig cpm. sva_update_graph1_geo t dc gc tp ac pt (Str ''all_values'') s e
                    = Inr (fig, cpm)
      \<longrightarrow> (\<exists>grouped.
            groupby_sum (t\<lparr>rows := filter (\<lambda>r. py_eq (r ''variable_description'') tp
                  \<and> py_eq (r ''activity_type'') ac
                  \<and> cell_le s (r dc) = Inr True \<and> cell_le (r dc) e = Inr True) (rows t)\<rparr>)
              (groups_key dc) = Inr grouped
            \<and> cost_per_act grouped = Inr (fig_data fig)))
   \<and> (\<forall>fig. qs_update_graph1_geo t gc tp (Str ''all_values'') = Inr fig
      \<longrightarrow> groupby_sum (t\<lparr>rows := filter (\<lambda>r. py_eq (r ''variable_description'') tp)
                                     (rows t)\<rparr>) [''YEAR_QTR'']
          = Inr (fig_data fig))
   \<and> (\<forall>fig. update_figure t dc gc (Str ''select_all'') = Inr fig
      \<longrightarrow> groupby_sum t [dc] = Inr (fig_data fig))
   \<and> (\<forall>out fig. get_spend_vs_activity_plot t v a dr dcl gcl None = (out, Inr (Some fig))
      \<longrightarrow> (\<exists>d s e. dcl = Name d \<and> date_bounds t dr dcl = Inr (s, e)
           \<and> cost_per_act (t\<lparr>rows := filter (\<lambda>r.
                  str_lower (r ''variable_description'') = Str (lower v)
                  \<and> str_lower (r ''activity_type'') = Str (lower a)
                  \<and> cell_le s (r d) = Inr True \<and> cell_le (r d) e = Inr True) (rows t)\<rparr>)
               = Inr (fig_data fig)))
   \<and> (\<forall>out fig. get_quarterly_spends_plot t gcl v None = (out, Inr (Some fig))
      \<longrightarrow> groupby_sum (t\<lparr>rows := filter (\<lambda>r. r ''variable_description'' = Str v)
                                     (rows t)\<rparr>) [''YEAR_QTR'']
          = Inr (fig_data fig))
   \<and> (\<forall>out fig gv. get_actual_vs_predicted_plot t dc dv il gcl gv = (out, Inr fig)
        \<and> (gv = None \<or> gv = Some (Str ''all''))
      \<longrightarrow> (\<exists>data. avp_data t il = Inr data \<and> groupby_sum data [dc] = Inr (fig_data fig)))"
proof (intro conjI allI impI; (elim conjE)?)
  show "sva_update_graph1_geo t dc gc tp ac pt (Str ''all_values'') s e
     = sva_update_graph1_geo t dc gc' tp ac pt (Str ''all_values'') s e"
    by (simp add: sva_update_graph1_geo_def)
  show "qs_update_graph1_geo t gc tp (Str ''all_values'')
     = qs_update_graph1_geo t gc' tp (Str ''all_values'')"
    by (simp add: qs_update_graph1_geo_def)
  show "update_figure t dc gc (Str ''select_all'') = update_figure t dc gc' (Str ''select_all'')"
    by (simp add: update_figure_def)
  have "sva_filter_lower t v a x y dcl gcl None = sva_filter_lower t v a x y dcl gcl' None"
    for x y by (simp add: sva_filter_lower_def)
  then show "get_spend_vs_activity_plot t v a dr dcl gcl None
     = get_spend_vs_activity_plot t v a dr dcl gcl' None"
    by (simp add: get_spend_vs_activity_plot_def split: prod.splits sum.splits option.splits)
  show "get_quarterly_spends_plot t gcl v None = get_quarterly_spends_plot t gcl' v None"
    by (simp add: get_quarterly_spends_plot_def split: prod.splits sum.splits bool.splits)
  show "get_actual_vs_predicted_plot t dc dv il gcl None
     = get_actual_vs_predicted_plot t dc dv il gcl' None"
    by (simp add: get_actual_vs_predicted_plot_def split: sum.splits)
  show "get_actual_vs_predicted_plot t dc dv il gcl (Some (Str ''all''))
     = get_actual_vs_predicted_plot t dc dv il gcl' None"
    by (simp add: get_actual_vs_predicted_plot_def split: sum.splits)
next
  fix fig cpm
  assume f: "sva_update_graph1_geo t dc gc tp ac pt (Str ''all_values'') s e = Inr (fig, cpm)"
  from sva_update_graph1_geo_Inr(1)[OF f]
  show "\<exists>grouped.
            groupby_sum (t\<lparr>rows := filter (\<lambda>r. py_eq (r ''variable_description'') tp
                  \<and> py_eq (r ''activity_type'') ac
                  \<and> cell_le s (r dc) = Inr True \<and> cell_le (r dc) e = Inr True) (rows t)\<rparr>)
              (groups_key dc) = Inr grouped
            \<and> cost_per_act grouped = Inr (fig_data fig)" by simp
next
  fix fig assume f: "qs_update_graph1_geo t gc tp (Str ''all_values'') = Inr fig"
  from qs_update_graph1_geo_Inr[OF f]
  show "groupby_sum (t\<lparr>rows := filter (\<lambda>r. py_eq (r ''variable_description'') tp)
                                     (rows t)\<rparr>) [''YEAR_QTR'']
          = Inr (fig_data fig)" by simp
next
  fix fig assume "update_figure t dc gc (Str ''select_all'') = Inr fig"
  then show "groupby_sum t [dc] = Inr (fig_data fig)"
    by (rule update_figure_Inr(1)) simp
next
  fix out fig
  assume f: "get_spend_vs_activity_plot t v a dr dcl gcl None = (out, Inr (Some fig))"
  from get_spend_vs_activity_plot_Some(1)[OF f]
  show "\<exists>d s e. dcl = Name d \<and> date_bounds t dr dcl = Inr (s, e)
           \<and> cost_per_act (t\<lparr>rows := filter (\<lambda>r.
                  str_lower (r ''variable_description'') = Str (lower v)
                  \<and> str_lower (r ''activity_type'') = Str (lower a)
                  \<and> cell_le s (r d) = Inr True \<and> cell_le (r d) e = Inr True) (rows t)\<rparr>)
               = Inr (fig_data fig)" by simp
next
  fix out fig
  assume f: "get_quarterly_spends_plot t gcl v None = (out, Inr (Some fig))"
  from get_quarterly_spends_plot_Some(1)[OF f]
  show "groupby_sum (t\<lparr>rows := filter (\<lambda>r. r ''variable_description'' = Str v)
                                     (rows t)\<rparr>) [''YEAR_QTR'']
          = Inr (fig_data fig)" by simp
next
  fix out fig gv
  assume f: "get_actual_vs_predicted_plot t dc dv il gcl gv = (out, Inr fig)"
    and g: "gv = None \<or> gv = Some (Str ''all'')"
  from get_actual_vs_predicted_plot_Inr[OF f] g
  show "\<exists>data. avp_data t il = Inr data \<and> groupby_sum data [dc] = Inr (fig_data fig)"
    by blast
qed

text \<open>
  Without a group value the quarterly table is summed over both regions, and the
  scenario of the specification keeps its three rows.
\<close>

theorem sentinel_skips_group_filter_witness:
  "get_quarterly_spends_plot quarterly (Name ''region'') ''TV'' None
     = ([], Inr (Some (the (projr (snd (get_quarterly_spends_plot quarterly (Name ''region'')
                                          ''TV'' None))))))
   \<and> groupby_sum (quarterly\<lparr>rows := filter (\<lambda>r. r ''variable_description'' = Str ''TV'')
                                          (rows quarterly)\<rparr>) [''YEAR_QTR'']
       = Inr (fig_data (the (projr (snd (get_quarterly_spends_plot quarterly (Name ''region'')
                                           ''TV'' None)))))
   \<and> shown (the (projr (snd (get_quarterly_spends_plot quarterly (Name ''region'') ''TV''
                               None))))
       = [[Str ''2021Q1'', Str ''TVTVTV'', Str ''easteastwest'', Num (Fin 22)]]
   \<and> update_figure avp_table ''date'' ''region'' (Str ''select_all'')
       = Inr (projr (update_figure avp_table ''date'' ''region'' (Str ''select_all'')))
   \<and> groupby_sum avp_table [''date'']
       = Inr (fig_data (projr (update_figure avp_table ''date'' ''region''
                                 (Str ''select_all''))))"
proof -
  let ?q = "get_quarterly_spends_plot quarterly (Name ''region'') ''TV'' None"
  let ?u = "update_figure avp_table ''date'' ''region'' (Str ''select_all'')"
  have q: "?q = ([], Inr (Some (the (projr (snd ?q)))))"
    by (simp add: eval_defs fun_defs quarterly_def)
  have sh: "shown (the (projr (snd ?q)))
      = [[Str ''2021Q1'', Str ''TVTVTV'', Str ''easteastwest'', Num (Fin 22)]]"
    by (simp add: eval_defs fun_defs quarterly_def shown_def)
  have u: "?u = Inr (projr ?u)"
    by (simp add: eval_defs fun_defs avp_table_def)
  note a = sentinel_skips_group_filter[where t = quarterly and gcl = "Name ''region''"
      and v = "''TV''"]
  note b = sentinel_skips_group_filter[where t = avp_table and dc = "''date''"
      and gc = "''region''", THEN conjunct2, THEN conjunct2, THEN conjunct2, THEN conjunct2,
      THEN conjunct2, THEN conjunct2, THEN conjunct2, THEN conjunct2, THEN conjunct2,
      THEN conjunct1]
  from a q have "groupby_sum (quarterly\<lparr>rows := filter (\<lambda>r.
        r ''variable_description'' = Str ''TV'') (rows quarterly)\<rparr>) [''YEAR_QTR'']
       = Inr (fig_data (the (projr (snd ?q))))" by blast
  moreover from b u have "groupby_sum avp_table [''date''] = Inr (fig_data (projr ?u))"
    by blast
  ultimately show ?thesis using q u sh by simp
qed

section \<open>The aggregator\<close>




section \<open>The caller's table is left as it was\<close>

text \<open>
  Claim C8. Run on the heap, every plotting function and every callback returns what
  its definition on tables returns for the table the caller passed, and leaves every
  table object that existed before the call, the caller's table among them, exactly as
  it was: the derived column and the exponentials are written into objects that the
  call itself has made.
\<close>

theorem input_table_unchanged:
  assumes "b < next_ref h"
  shows "objs (snd (o_sva_update_graph1 data dc tp ac pt s e h)) b = objs h b
       \<and> objs (snd (o_sva_update_graph1_geo data dc gc tp ac pt geo s e h)) b = objs h b
       \<and> objs (snd (o_get_spend_vs_activity_plot data v a dr dcl gcl gv h)) b = objs h b
       \<and> objs (snd (o_qs_update_graph1 data tp h)) b = objs h b
       \<and> objs (snd (o_qs_update_graph1_geo data gc tp geo h)) b = objs h b
       \<and> objs (snd (o_get_quarterly_spends_plot data gcl v gv h)) b = objs h b
       \<and> objs (snd (o_avp_data data il h)) b = objs h b
       \<and> objs (snd (o_update_figure data dc gc geo h)) b = objs h b
       \<and> objs (snd (o_get_actual_vs_predicted_plot data dc dv il gcl gv h)) b = objs h b
       \<and> fst (o_sva_update_graph1 data dc tp ac pt s e h)
           = sva_update_graph1 (objs h data) dc tp ac pt s e
       \<and> fst (o_sva_update_graph1_geo data dc gc tp ac pt geo s e h)
           = sva_update_graph1_geo (objs h data) dc gc tp ac pt geo s e
       \<and> fst (o_get_spend_vs_activity_plot data v a dr dcl gcl gv h)
           = get_spend_vs_activity_plot (objs h data) v a dr dcl gcl gv
       \<and> fst (o_qs_update_graph1 data tp h) = qs_update_graph1 (objs h data) tp
       \<and> fst (o_qs_update_graph1_geo data gc tp geo h)
           = qs_update_graph1_geo (objs h data) gc tp geo
       \<and> fst (o_get_quarterly_spends_plot data gcl v gv h)
           = get_quarterly_spends_plot (objs h data) gcl v gv
       \<and> fst (o_update_figure data dc gc geo h) = update_figure (objs h data) dc gc geo
       \<and> fst (o_get_actual_vs_predicted_plot data dc dv il gcl gv h)
           = get_actual_vs_predicted_plot (objs h data) dc dv il gcl gv"
proof -
  have "objs (snd (o_avp_data data il h)) b = objs h b"
    using o_avp_data_run(3)[OF prod.collapse[symmetric] assms] .
  then show ?thesis
    using assms
    by (simp add: o_sva_update_graph1_old o_sva_update_graph1_geo_old
        o_get_spend_vs_activity_plot_old o_qs_update_graph1_old o_qs_update_graph1_geo_old
        o_get_quarterly_spends_plot_old o_update_figure_old
        o_get_actual_vs_predicted_plot_old o_sva_update_graph1_result
        o_sva_update_graph1_geo_result o_get_spend_vs_activity_plot_result
        o_qs_update_graph1_result o_qs_update_graph1_geo_result
        o_get_quarterly_spends_plot_result o_update_figure_result
        o_get_actual_vs_predicted_plot_result)
qed

text \<open>
  The scenario of the specification as the only table of the heap: after the call the
  table is the scenario still, and the derived column is in the new object.
\<close>

theorem input_table_unchanged_witness:
  "(0::nat) < next_ref (one_table scenario)
   \<and> objs (snd (o_get_spend_vs_activity_plot 0 ''TV'' ''Impressions'' [] (Name ''date'')
                  NoneLabel None (one_table scenario))) 0 = scenario
   \<and> columns (objs (snd (o_get_spend_vs_activity_plot 0 ''TV'' ''Impressions'' []
                           (Name ''date'') NoneLabel None (one_table scenario))) 1)
       = [''date'', ''variable_description'', ''activity_type'', ''Spend'', ''Activity'',
          ''cost_per_act'']
   \<and> fst (o_get_spend_vs_activity_plot 0 ''TV'' ''Impressions'' [] (Name ''date'')
            NoneLabel None (one_table scenario))
       = get_spend_vs_activity_plot scenario ''TV'' ''Impressions'' [] (Name ''date'')
           NoneLabel None"
proof -
  have n: "(0::nat) < next_ref (one_table scenario)" by (simp add: one_table_def)
  have o: "objs (one_table scenario) 0 = scenario" by (simp add: one_table_def)
  have c: "sva_checks scenario ''TV'' ''Impressions'' [] (Name ''date'')
      = ([], Inr (Some (Dt 1, Dt 3)))"
    by (simp add: eval_defs fun_defs scenario_def)
  have f: "sva_filter_lower scenario ''TV'' ''Impressions'' (Dt 1) (Dt 3) (Name ''date'')
      NoneLabel None = Inr scenario"
    by (simp add: eval_defs fun_defs scenario_def)
  define t' where "t' = projr (cost_per_act scenario)"
  have k: "columns t'
      = [''date'', ''variable_description'', ''activity_type'', ''Spend'', ''Activity'',
          ''cost_per_act'']"
    "cost_per_act scenario = Inr t'"
    unfolding t'_def by (simp_all add: eval_defs scenario_def)
  have new: "columns (objs (snd (o_get_spend_vs_activity_plot 0 ''TV'' ''Impressions'' []
                           (Name ''date'') NoneLabel None (one_table scenario))) 1)
       = [''date'', ''variable_description'', ''activity_type'', ''Spend'', ''Activity'',
          ''cost_per_act'']"
    unfolding o_get_spend_vs_activity_plot_def o c
    by (simp add: cbind_def cnew_def cread_def o_cost_per_act_run f k one_table_def
        split: sum.splits)
  note u = input_table_unchanged[OF n, where data = 0 and v = "''TV''"
      and a = "''Impressions''" and dr = "[]" and dcl = "Name ''date''" and gcl = NoneLabel
      and gv = None]
  have "objs (snd (o_get_spend_vs_activity_plot 0 ''TV'' ''Impressions'' [] (Name ''date'')
                  NoneLabel None (one_table scenario))) 0 = objs (one_table scenario) 0"
    by (rule u[THEN conjunct2, THEN conjunct2, THEN conjunct1])
  moreover have "fst (o_get_spend_vs_activity_plot 0 ''TV'' ''Impressions'' [] (Name ''date'')
            NoneLabel None (one_table scenario))
       = get_spend_vs_activity_plot (objs (one_table scenario) 0) ''TV'' ''Impressions'' []
           (Name ''date'') NoneLabel None"
    by (rule u[THEN conjunct2, THEN conjunct2, THEN conjunct2, THEN conjunct2,
        THEN conjunct2, THEN conjunct2, THEN conjunct2, THEN conjunct2,
        THEN conjunct2, THEN conjunct2, THEN conjunct2,
        THEN conjunct1])
  ultimately show ?thesis using o new n by simp
qed

section \<open>The default of \<^verbatim>\<open>date_col\<close>\<close>

text \<open>
  Claim C9 says that every call of \<^verbatim>\<open>get_spend_vs_activity_plot\<close> that omits
  \<^verbatim>\<open>date_col\<close> fails with a lookup error before any validation, with no validator
  message. That is so only when \<^verbatim>\<open>date_range\<close> is empty too: with a date range the
  column is first read in the row filter, after the selector checks. Here the range is
  given and the variable is unknown: the function prints the validator's message and
  returns \<^verbatim>\<open>None\<close>, without any exception.
\<close>

theorem sva_default_date_col_counterexample:
  "get_spend_vs_activity_plot scenario ''Radio'' ''Impressions'' [Dt 1, Dt 3] StrType
       NoneLabel None
     = ([Line (sva_message ''Radio''), Item (Str ''TV'')], Inr None)"
  by (simp add: eval_defs fun_defs scenario_def)

text \<open>
  Claim C9, amended. With \<^verbatim>\<open>date_col\<close> omitted and no date range, the call fails with
  \<^verbatim>\<open>KeyError\<close> before any validation, and nothing is printed. With \<^verbatim>\<open>date_col\<close> omitted
  and any date range, no figure is ever returned; and when the selector checks pass,
  the call fails with \<^verbatim>\<open>KeyError\<close> in the row filter.
\<close>

theorem sva_default_date_col:
  "get_spend_vs_activity_plot t v a [] StrType gc gv = ([], Inl KeyError)
   \<and> (\<forall>fig. snd (get_spend_vs_activity_plot t v a dr StrType gc gv) \<noteq> Inr (Some fig))
   \<and> (\<forall>b. sva_checks t v a dr StrType = ([], Inr (Some b)) \<longrightarrow>
         get_spend_vs_activity_plot t v a dr StrType gc gv = ([], Inl KeyError))"
proof -
  have 1: "get_spend_vs_activity_plot t v a [] StrType gc gv = ([], Inl KeyError)"
    by (simp add: get_spend_vs_activity_plot_def sva_checks_def date_bounds_default_empty)
  have 3: "get_spend_vs_activity_plot t v a dr StrType gc gv = ([], Inl KeyError)"
    if c: "sva_checks t v a dr StrType = ([], Inr (Some b))" for b
  proof -
    note s = sva_checks_Some[OF c]
    have "sva_filter_lower t v a x y StrType gc gv = Inl KeyError" for x y
      using s(3,4) by (simp add: sva_filter_lower_def ebind_def)
    then show ?thesis
      by (simp add: get_spend_vs_activity_plot_def c ebind_def split: prod.splits)
  qed
  have 2: "snd (get_spend_vs_activity_plot t v a dr StrType gc gv) \<noteq> Inr (Some fig)" for fig
    using sva_checks_outcomes[of t v a dr StrType]
  proof (elim disjE exE)
    fix e assume "sva_checks t v a dr StrType = ([], Inl e)"
    then show ?thesis by (simp add: get_spend_vs_activity_plot_def)
  next
    fix out assume "sva_checks t v a dr StrType = (out, Inr None)"
    then show ?thesis by (simp add: get_spend_vs_activity_plot_def)
  next
    fix b assume "sva_checks t v a dr StrType = ([], Inr (Some b))"
    from 3[OF this] show ?thesis by simp
  qed
  from 1 2 3 show ?thesis by blast
qed

text \<open>A date range and valid selectors: the lookup fails in the row filter.\<close>

theorem sva_default_date_col_witness:
  "sva_checks scenario ''TV'' ''Impressions'' [Dt 1, Dt 3] StrType
     = ([], Inr (Some (Dt 1, Dt 3)))
   \<and> get_spend_vs_activity_plot scenario ''TV'' ''Impressions'' [Dt 1, Dt 3] StrType
        NoneLabel None = ([], Inl KeyError)"
proof -
  have c: "sva_checks scenario ''TV'' ''Impressions'' [Dt 1, Dt 3] StrType
     = ([], Inr (Some (Dt 1, Dt 3)))"
    by (simp add: eval_defs fun_defs scenario_def)
  from sva_default_date_col[of scenario "''TV''" "''Impressions''" NoneLabel None
      "[Dt 1, Dt 3]"] c
  show ?thesis by blast
qed

section \<open>The exponential comes before the sum\<close>



end
